theory Spec2Isabelle
  imports Main "HOL-Library.Multiset" "HOL-Library.Word"
begin

section \<open>Persistent state\<close>

text \<open>
  The server keeps two SQLite tables (\<^verbatim>\<open>config/db.js\<close>) and a directory of uploaded
  artifacts (\<^verbatim>\<open>uploads/<user id>/<stored name>\<close>, \<^verbatim>\<open>routes/files.js\<close>). A table is the list
  of its rows in rowid order; the \<^verbatim>\<open>AUTOINCREMENT\<close> counter of each table
  (\<^verbatim>\<open>sqlite_sequence\<close>) is kept beside it. The uploads directory is a partial map from
  a path, the pair of the user directory and the file name, to the bytes stored there.
  Timestamps (\<^verbatim>\<open>CURRENT_TIMESTAMP\<close>, a fixed-width text whose order is the order of
  time) are seconds as \<open>nat\<close>. Strings are lists of characters, one element for each
  unit that JavaScript's \<^verbatim>\<open>length\<close> counts.
\<close>

type_synonym bytes = "8 word list"

record user_row =
  u_id :: int
  username :: string
  email :: string
  password :: string
  created_at :: nat

record file_row =
  f_id :: int
  user_id :: int
  filename :: string
  original_name :: string
  f_size :: nat
  mimetype :: string
  upload_date :: nat

type_synonym path = "int \<times> string"

record state =
  users :: "user_row list"
  users_seq :: int
  files :: "file_row list"
  files_seq :: int
  disk :: "path \<Rightarrow> bytes option"

text \<open>
  What a request reads from the process and the world around it: the two environment
  variables, the clock, the salted hash \<^verbatim>\<open>bcrypt.hash(password, 10)\<close> returns, and the
  faults of the storage layers. \<open>MAX_FILE_SIZE\<close> is the value of
  \<^verbatim>\<open>parseInt(process.env.MAX_FILE_SIZE)\<close>, with \<open>None\<close> for \<^verbatim>\<open>NaN\<close> (the variable unset
  or not a number). \<open>insert_throws\<close> says for which row the \<^verbatim>\<open>INSERT INTO files\<close>
  statement throws (a constraint, a full disk, an I/O error), \<open>unlink_throws\<close> for which
  existing path \<^verbatim>\<open>fs.unlinkSync\<close> throws (permissions, a busy file).
\<close>

record env =
  JWT_SECRET :: string
  MAX_FILE_SIZE :: "int option"
  clock :: nat
  bcrypt_hash :: "string \<Rightarrow> string"
  insert_throws :: "file_row \<Rightarrow> bool"
  unlink_throws :: "path \<Rightarrow> bool"

section \<open>Requests and responses\<close>

record jwt_payload =
  tok_id :: int
  tok_username :: string
  tok_email :: string

text \<open>
  A signed token (library \<^verbatim>\<open>jsonwebtoken\<close>): the payload, the expiry and the secret it
  was signed with. A signature is taken to be unforgeable, so checking it is comparing
  the secret.
\<close>

record jwt =
  claims :: jwt_payload
  expiry :: nat
  signed_with :: string

record public_user =
  pu_id :: int
  pu_username :: string
  pu_email :: string

record me_row =
  me_id :: int
  me_username :: string
  me_email :: string
  me_created_at :: nat

record uploaded =
  up_id :: int
  up_filename :: string
  up_originalName :: string
  up_size :: nat
  up_mimetype :: string

record listed =
  l_id :: int
  l_filename :: string
  l_original_name :: string
  l_size :: nat
  l_mimetype :: string
  l_upload_date :: nat

datatype auth_error = Unauthenticated | InvalidToken | TokenExpired

datatype multer_error = LIMIT_UNEXPECTED_FILE | LIMIT_FILE_SIZE

datatype body =
    Error string
  | Message string
  | Registered string jwt public_user
  | Me me_row
  | Uploaded string "uploaded list"
  | Files "listed list"
  | Renamed string string

text \<open>
  \<open>Json status body\<close> is \<^verbatim>\<open>res.status(status).json(body)\<close>; \<open>Download bytes name\<close> is
  \<^verbatim>\<open>res.download(filePath, name)\<close>, the bytes at the path sent as an attachment called
  \<open>name\<close>; \<open>Denied\<close> and \<open>Rejected\<close> are the requests the two middlewares stop.
\<close>

datatype response =
    Json nat body
  | Download bytes string
  | Denied auth_error
  | Rejected multer_error

text \<open>A field of a JSON body is missing (\<open>None\<close>) or a string; \<^verbatim>\<open>!x\<close> holds for a
  missing field and for the empty string.\<close>

definition falsy :: "string option \<Rightarrow> bool" where
  "falsy x = (case x of None \<Rightarrow> True | Some v \<Rightarrow> v = [])"

section \<open>The database statements\<close>

text \<open>\<^verbatim>\<open>INTEGER PRIMARY KEY AUTOINCREMENT\<close>: the new rowid is one more than the largest
  rowid the table ever held.\<close>

definition next_rowid :: "int \<Rightarrow> int list \<Rightarrow> int" where
  "next_rowid seq ids = fold max ids seq + 1"

text \<open>\<^verbatim>\<open>INSERT INTO users (username, email, password) VALUES (?, ?, ?)\<close> under the
  \<^verbatim>\<open>UNIQUE\<close> constraints of the table: \<open>None\<close> when the statement throws.\<close>

definition insert_user :: "env \<Rightarrow> string \<Rightarrow> string \<Rightarrow> string \<Rightarrow> state \<Rightarrow> (int \<times> state) option" where
  "insert_user e name mail hashed s =
     (if list_ex (\<lambda>r. username r = name \<or> email r = mail) (users s) then None
      else
        let rowid = next_rowid (users_seq s) (map u_id (users s));
            row = \<lparr>u_id = rowid, username = name, email = mail, password = hashed,
                   created_at = clock e\<rparr>
        in Some (rowid, s\<lparr>users := users s @ [row], users_seq := rowid\<rparr>))"

text \<open>\<^verbatim>\<open>INSERT INTO files (user_id, filename, original_name, size, mimetype)\<close>.\<close>

record multer_file =
  file_filename :: string
  file_originalname :: string
  file_size :: nat
  file_mimetype :: string

definition stmt_run :: "env \<Rightarrow> int \<Rightarrow> multer_file \<Rightarrow> state \<Rightarrow> (int \<times> state) option" where
  "stmt_run e uid f s =
     (let rowid = next_rowid (files_seq s) (map f_id (files s));
          row = \<lparr>f_id = rowid, user_id = uid, filename = file_filename f,
                 original_name = file_originalname f, f_size = file_size f,
                 mimetype = file_mimetype f, upload_date = clock e\<rparr>
      in if insert_throws e row then None
         else Some (rowid, s\<lparr>files := files s @ [row], files_seq := rowid\<rparr>))"

text \<open>\<^verbatim>\<open>db.prepare('SELECT * FROM files WHERE id = ? AND user_id = ?').get(fileId, req.user.id)\<close>,
  the lookup that download, delete and rename start with (\<open>getOwned\<close> in the
  specification): the first row that matches, or nothing. \<^verbatim>\<open>fileId\<close> is the \<^verbatim>\<open>:id\<close> of the
  URL, compared with an \<^verbatim>\<open>INTEGER\<close> column: it is the integer it denotes, and a text that
  denotes none matches no row, as an integer that no row carries does.\<close>

definition getOwned :: "int \<Rightarrow> int \<Rightarrow> state \<Rightarrow> file_row option" where
  "getOwned fileId uid s = find (\<lambda>r. f_id r = fileId \<and> user_id r = uid) (files s)"

section \<open>Sessions\<close>

text \<open>\<^verbatim>\<open>jwt.sign(payload, process.env.JWT_SECRET, { expiresIn: '7d' })\<close>.\<close>

definition jwt_sign :: "jwt_payload \<Rightarrow> env \<Rightarrow> jwt" where
  "jwt_sign p e = \<lparr>claims = p, expiry = clock e + 7 * 24 * 60 * 60, signed_with = JWT_SECRET e\<rparr>"

text \<open>
  Modelled from the spec: the middleware \<^verbatim>\<open>authenticateToken\<close> of
  \<^verbatim>\<open>middleware/auth.js\<close>, which the routes import and whose source is missing. The spec
  (4.2): \<^emph>\<open>verify(token) decodes and checks signature and expiry; returns the embedded
  identity or fails with Unauthenticated (missing/malformed header), InvalidToken (bad
  signature), or TokenExpired\<close>; a token is valid when its signature is correct and
  the time is before its expiry. The header is \<open>None\<close> when it is missing or malformed.
\<close>

definition authenticateToken :: "env \<Rightarrow> jwt option \<Rightarrow> auth_error + jwt_payload" where
  "authenticateToken e hdr =
     (case hdr of
        None \<Rightarrow> Inl Unauthenticated
      | Some t \<Rightarrow>
          if signed_with t \<noteq> JWT_SECRET e then Inl InvalidToken
          else if \<not> clock e < expiry t then Inl TokenExpired
          else Inr (claims t))"

text \<open>A route behind the middleware: the handler runs with \<^verbatim>\<open>req.user\<close> set to the
  identity of the token, or the request is denied and nothing changes.\<close>

definition authenticated ::
  "env \<Rightarrow> jwt option \<Rightarrow> (jwt_payload \<Rightarrow> state \<Rightarrow> response \<times> state) \<Rightarrow> state \<Rightarrow> response \<times> state" where
  "authenticated e hdr handler s =
     (case authenticateToken e hdr of
        Inl err \<Rightarrow> (Denied err, s)
      | Inr u \<Rightarrow> handler u s)"

section \<open>routes/auth.js\<close>

text \<open>\<^verbatim>\<open>router.post('/register')\<close>. The three fields are read from the JSON body; the
  hash, the row's timestamp and the token's issue time are taken at the one clock
  reading of the request. An insert that throws is caught by the handler: 500.\<close>

definition register :: "env \<Rightarrow> string option \<Rightarrow> string option \<Rightarrow> string option \<Rightarrow> state \<Rightarrow> response \<times> state" where
  "register e uname mail pw s =
     (if falsy uname \<or> falsy mail \<or> falsy pw then
        (Json 400 (Error ''All fields are required''), s)
      else if length (the pw) < 6 then
        (Json 400 (Error ''Password must be at least 6 characters''), s)
      else
        case find (\<lambda>r. email r = the mail \<or> username r = the uname) (users s) of
          Some existingUser \<Rightarrow> (Json 400 (Error ''User already exists''), s)
        | None \<Rightarrow>
            (case insert_user e (the uname) (the mail) (bcrypt_hash e (the pw)) s of
               None \<Rightarrow> (Json 500 (Error ''Server error''), s)
             | Some (rowid, s') \<Rightarrow>
                 (Json 201
                    (Registered ''User registered successfully''
                       (jwt_sign \<lparr>tok_id = rowid, tok_username = the uname, tok_email = the mail\<rparr> e)
                       \<lparr>pu_id = rowid, pu_username = the uname, pu_email = the mail\<rparr>),
                  s')))"

text \<open>\<^verbatim>\<open>router.get('/me')\<close>:
  \<^verbatim>\<open>SELECT id, username, email, created_at FROM users WHERE id = ?\<close> with \<^verbatim>\<open>req.user.id\<close>.\<close>

definition me :: "jwt_payload \<Rightarrow> state \<Rightarrow> response \<times> state" where
  "me u s =
     (case find (\<lambda>r. u_id r = tok_id u) (users s) of
        None \<Rightarrow> (Json 404 (Error ''User not found''), s)
      | Some r \<Rightarrow>
          (Json 200 (Me \<lparr>me_id = u_id r, me_username = username r, me_email = email r,
                         me_created_at = created_at r\<rparr>), s))"

definition getCurrentUser :: "env \<Rightarrow> jwt option \<Rightarrow> state \<Rightarrow> response \<times> state" where
  "getCurrentUser e hdr s = authenticated e hdr me s"

section \<open>routes/files.js\<close>

text \<open>The router that \<^verbatim>\<open>server.js\<close> mounts at \<^verbatim>\<open>/api/files\<close>; every route of it is behind
  \<^verbatim>\<open>authenticateToken\<close>.\<close>

subsection \<open>The multer middleware\<close>

text \<open>
  One file of the multipart body as the front end parses it, with what the
  \<^verbatim>\<open>filename\<close> callback of the disk storage reads when it names the file:
  \<^verbatim>\<open>Date.now()\<close> and \<^verbatim>\<open>Math.round(Math.random() * 1E9)\<close>.
\<close>

record part =
  originalname :: string
  part_mimetype :: string
  content :: bytes
  date_now :: nat
  random :: nat

text \<open>A number joined to a string with \<^verbatim>\<open>+\<close> is written in decimal.\<close>

fun dec :: "nat \<Rightarrow> string" where
  "dec n = (if n < 10 then [char_of (48 + n)] else dec (n div 10) @ [char_of (48 + n mod 10)])"

declare dec.simps [simp del]

text \<open>\<^verbatim>\<open>filename: uniqueSuffix + '-' + file.originalname\<close>, where \<^verbatim>\<open>uniqueSuffix\<close> is
  \<^verbatim>\<open>Date.now() + '-' + Math.round(Math.random() * 1E9)\<close>.\<close>

definition storage_filename :: "part \<Rightarrow> string" where
  "storage_filename p = dec (date_now p) @ ''-'' @ dec (random p) @ ''-'' @ originalname p"

text \<open>\<^verbatim>\<open>destination\<close>: the directory of the user under \<^verbatim>\<open>uploads\<close>, so the artifact is at
  the path \<^verbatim>\<open>path.join(uploadsDir, req.user.id.toString(), filename)\<close>.\<close>

definition filePath :: "int \<Rightarrow> string \<Rightarrow> path" where
  "filePath uid name = (uid, name)"

text \<open>\<^verbatim>\<open>fileSize: parseInt(process.env.MAX_FILE_SIZE) || 10485760\<close>: \<^verbatim>\<open>NaN\<close> and \<^verbatim>\<open>0\<close> are
  falsy.\<close>

definition fileSize :: "env \<Rightarrow> int" where
  "fileSize e = (case MAX_FILE_SIZE e of None \<Rightarrow> 10485760 | Some n \<Rightarrow> if n = 0 then 10485760 else n)"

definition to_file :: "part \<Rightarrow> multer_file" where
  "to_file p = \<lparr>file_filename = storage_filename p, file_originalname = originalname p,
                file_size = length (content p), file_mimetype = part_mimetype p\<rparr>"

definition write_part :: "int \<Rightarrow> part \<Rightarrow> (path \<Rightarrow> bytes option) \<Rightarrow> (path \<Rightarrow> bytes option)" where
  "write_part uid p d = d(filePath uid (storage_filename p) \<mapsto> content p)"

text \<open>
  \<^verbatim>\<open>upload.array('files', 10)\<close> with the limits above, by the contract of the library
  \<^verbatim>\<open>multer\<close>. The files of the body are taken in order: a file beyond the count, or a
  file longer than \<^verbatim>\<open>fileSize\<close> bytes, stops the request with an error before the
  handler. Otherwise every file is written under its generated name, in the order of
  the body, and \<^verbatim>\<open>req.files\<close> describes them. A stopped request leaves no file of its own
  behind, which is taken here as the disk it found.
\<close>

fun check_parts :: "int \<Rightarrow> nat \<Rightarrow> part list \<Rightarrow> multer_error option" where
  "check_parts limit filesLeft [] = None"
| "check_parts limit filesLeft (p # ps) =
     (if filesLeft = 0 then Some LIMIT_UNEXPECTED_FILE
      else if limit < int (length (content p)) then Some LIMIT_FILE_SIZE
      else check_parts limit (filesLeft - 1) ps)"

definition upload_array :: "env \<Rightarrow> int \<Rightarrow> part list \<Rightarrow> state \<Rightarrow> multer_error + (multer_file list \<times> state)" where
  "upload_array e uid parts s =
     (case check_parts (fileSize e) 10 parts of
        Some err \<Rightarrow> Inl err
      | None \<Rightarrow> Inr (map to_file parts, s\<lparr>disk := fold (write_part uid) parts (disk s)\<rparr>))"

subsection \<open>The handlers\<close>

text \<open>The loop of \<^verbatim>\<open>router.post('/upload')\<close> over \<^verbatim>\<open>req.files\<close>: \<open>Inl\<close> carries the state
  at the statement that threw, \<open>Inr\<close> the list \<^verbatim>\<open>uploadedFiles\<close>.\<close>

fun insert_files :: "env \<Rightarrow> int \<Rightarrow> multer_file list \<Rightarrow> uploaded list \<Rightarrow> state \<Rightarrow> state + (uploaded list \<times> state)" where
  "insert_files e uid [] uploadedFiles s = Inr (uploadedFiles, s)"
| "insert_files e uid (file # rest) uploadedFiles s =
     (case stmt_run e uid file s of
        None \<Rightarrow> Inl s
      | Some (rowid, s') \<Rightarrow>
          insert_files e uid rest
            (uploadedFiles @ [\<lparr>up_id = rowid, up_filename = file_filename file,
                                up_originalName = file_originalname file,
                                up_size = file_size file, up_mimetype = file_mimetype file\<rparr>]) s')"

definition post_upload :: "env \<Rightarrow> jwt_payload \<Rightarrow> multer_file list \<Rightarrow> state \<Rightarrow> response \<times> state" where
  "post_upload e u req_files s =
     (if req_files = [] then (Json 400 (Error ''No files uploaded''), s)
      else
        case insert_files e (tok_id u) req_files [] s of
          Inl s' \<Rightarrow> (Json 500 (Error ''Failed to upload files''), s')
        | Inr (uploadedFiles, s') \<Rightarrow>
            (Json 201 (Uploaded ''Files uploaded successfully'' uploadedFiles), s'))"

text \<open>\<^verbatim>\<open>router.get('/')\<close>:
  \<^verbatim>\<open>SELECT id, filename, original_name, size, mimetype, upload_date FROM files
  WHERE user_id = ? ORDER BY upload_date DESC\<close>. Rows of one \<open>upload_date\<close> come out in
  table order here; SQLite promises no order among them.\<close>

definition select_columns :: "file_row \<Rightarrow> listed" where
  "select_columns r = \<lparr>l_id = f_id r, l_filename = filename r, l_original_name = original_name r,
                       l_size = f_size r, l_mimetype = mimetype r, l_upload_date = upload_date r\<rparr>"

definition get_files :: "jwt_payload \<Rightarrow> state \<Rightarrow> response \<times> state" where
  "get_files u s =
     (Json 200
        (Files (map select_columns
           (sort_key (\<lambda>r. - int (upload_date r)) (filter (\<lambda>r. user_id r = tok_id u) (files s))))),
      s)"

text \<open>\<^verbatim>\<open>router.get('/download/:id')\<close>.\<close>

definition get_download :: "int \<Rightarrow> jwt_payload \<Rightarrow> state \<Rightarrow> response \<times> state" where
  "get_download fileId u s =
     (case getOwned fileId (tok_id u) s of
        None \<Rightarrow> (Json 404 (Error ''File not found''), s)
      | Some file \<Rightarrow>
          (case disk s (filePath (tok_id u) (filename file)) of
             None \<Rightarrow> (Json 404 (Error ''File not found on server''), s)
           | Some stored \<Rightarrow> (Download stored (original_name file), s)))"

text \<open>\<^verbatim>\<open>router.delete('/:id')\<close>. \<^verbatim>\<open>fs.unlinkSync\<close> removes the artifact or throws; what
  it throws is caught at the end of the handler, after which nothing else runs.\<close>

definition unlinkSync :: "env \<Rightarrow> path \<Rightarrow> state \<Rightarrow> state option" where
  "unlinkSync e p s = (if unlink_throws e p then None else Some (s\<lparr>disk := (disk s)(p := None)\<rparr>))"

definition delete_row :: "int \<Rightarrow> state \<Rightarrow> state" where
  "delete_row fileId s = s\<lparr>files := filter (\<lambda>r. f_id r \<noteq> fileId) (files s)\<rparr>"

definition delete_file :: "env \<Rightarrow> int \<Rightarrow> jwt_payload \<Rightarrow> state \<Rightarrow> response \<times> state" where
  "delete_file e fileId u s =
     (case getOwned fileId (tok_id u) s of
        None \<Rightarrow> (Json 404 (Error ''File not found''), s)
      | Some file \<Rightarrow>
          (let p = filePath (tok_id u) (filename file) in
           case (if disk s p \<noteq> None then unlinkSync e p s else Some s) of
             None \<Rightarrow> (Json 500 (Error ''Failed to delete file''), s)
           | Some s1 \<Rightarrow> (Json 200 (Message ''File deleted successfully''), delete_row fileId s1)))"

text \<open>\<^verbatim>\<open>router.put('/rename/:id')\<close>:
  \<^verbatim>\<open>UPDATE files SET original_name = ? WHERE id = ?\<close>.\<close>

definition update_name :: "string \<Rightarrow> int \<Rightarrow> state \<Rightarrow> state" where
  "update_name newName fileId s =
     s\<lparr>files := map (\<lambda>r. if f_id r = fileId then r\<lparr>original_name := newName\<rparr> else r) (files s)\<rparr>"

definition put_rename :: "int \<Rightarrow> string option \<Rightarrow> jwt_payload \<Rightarrow> state \<Rightarrow> response \<times> state" where
  "put_rename fileId newName u s =
     (if falsy newName then (Json 400 (Error ''New name is required''), s)
      else
        case getOwned fileId (tok_id u) s of
          None \<Rightarrow> (Json 404 (Error ''File not found''), s)
        | Some file \<Rightarrow>
            (Json 200 (Renamed ''File renamed successfully'' (the newName)),
             update_name (the newName) fileId s))"

subsection \<open>The routes, behind the middlewares\<close>

definition uploadFiles :: "env \<Rightarrow> jwt option \<Rightarrow> part list \<Rightarrow> state \<Rightarrow> response \<times> state" where
  "uploadFiles e hdr parts s =
     authenticated e hdr
       (\<lambda>u s. case upload_array e (tok_id u) parts s of
                 Inl err \<Rightarrow> (Rejected err, s)
               | Inr (req_files, s1) \<Rightarrow> post_upload e u req_files s1) s"

definition listFiles :: "env \<Rightarrow> jwt option \<Rightarrow> state \<Rightarrow> response \<times> state" where
  "listFiles e hdr s = authenticated e hdr get_files s"

definition downloadFile :: "env \<Rightarrow> jwt option \<Rightarrow> int \<Rightarrow> state \<Rightarrow> response \<times> state" where
  "downloadFile e hdr fileId s = authenticated e hdr (get_download fileId) s"

definition deleteFile :: "env \<Rightarrow> jwt option \<Rightarrow> int \<Rightarrow> state \<Rightarrow> response \<times> state" where
  "deleteFile e hdr fileId s = authenticated e hdr (delete_file e fileId) s"

definition renameFile :: "env \<Rightarrow> jwt option \<Rightarrow> int \<Rightarrow> string option \<Rightarrow> state \<Rightarrow> response \<times> state" where
  "renameFile e hdr fileId newName s = authenticated e hdr (put_rename fileId newName) s"

section \<open>A concrete deployment\<close>

text \<open>An environment without faults, one with each fault, and two sessions.\<close>

definition env0 :: env where
  "env0 = \<lparr>JWT_SECRET = ''k'', MAX_FILE_SIZE = None, clock = 100, bcrypt_hash = (\<lambda>p. CHR ''#'' # p),
           insert_throws = (\<lambda>r. False), unlink_throws = (\<lambda>p. False)\<rparr>"

definition env_insert_fault :: env where
  "env_insert_fault = env0\<lparr>insert_throws := (\<lambda>r. True)\<rparr>"

definition env_unlink_fault :: env where
  "env_unlink_fault = env0\<lparr>unlink_throws := (\<lambda>p. True)\<rparr>"

definition alice :: jwt_payload where
  "alice = \<lparr>tok_id = 1, tok_username = ''alice'', tok_email = ''alice@x.com''\<rparr>"

definition bob :: jwt_payload where
  "bob = \<lparr>tok_id = 2, tok_username = ''bob'', tok_email = ''bob@x.com''\<rparr>"

definition token_of :: "jwt_payload \<Rightarrow> jwt" where
  "token_of u = \<lparr>claims = u, expiry = 1000, signed_with = ''k''\<rparr>"

definition empty_state :: state where
  "empty_state = \<lparr>users = [], users_seq = 0, files = [], files_seq = 0, disk = (\<lambda>p. None)\<rparr>"

definition alice_row :: user_row where
  "alice_row = \<lparr>u_id = 1, username = ''alice'', email = ''alice@x.com'', password = ''#secret1'',
                created_at = 10\<rparr>"

definition notes_row :: file_row where
  "notes_row = \<lparr>f_id = 1, user_id = 1, filename = ''5-7-notes.txt'', original_name = ''notes.txt'',
                f_size = 3, mimetype = ''text/plain'', upload_date = 50\<rparr>"

definition notes_part :: part where
  "notes_part = \<lparr>originalname = ''notes.txt'', part_mimetype = ''text/plain'', content = [1, 2, 3],
                 date_now = 5, random = 7\<rparr>"

text \<open>Alice is registered and has uploaded one file of three bytes.\<close>

definition state1 :: state where
  "state1 = \<lparr>users = [alice_row], users_seq = 1, files = [notes_row], files_seq = 1,
             disk = (\<lambda>p. None)((1, ''5-7-notes.txt'') \<mapsto> [1, 2, 3])\<rparr>"

text \<open>Alice is registered and has no file yet.\<close>

definition state0 :: state where
  "state0 = \<lparr>users = [alice_row], users_seq = 1, files = [], files_seq = 0, disk = (\<lambda>p. None)\<rparr>"

definition report_part :: part where
  "report_part = \<lparr>originalname = ''report.pdf'', part_mimetype = ''application/pdf'', content = [4, 5],
                  date_now = 8, random = 9\<rparr>"

text \<open>The insert of any row named \<^verbatim>\<open>report.pdf\<close> throws.\<close>

definition env_report_fault :: env where
  "env_report_fault = env0\<lparr>insert_throws := (\<lambda>r. original_name r = ''report.pdf'')\<rparr>"

text \<open>Both artifacts written, one row inserted.\<close>

definition after_fault :: state where
  "after_fault = \<lparr>users = [alice_row], users_seq = 1,
                  files = [notes_row\<lparr>upload_date := 100\<rparr>], files_seq = 1,
                  disk = (\<lambda>p. None)((1, ''5-7-notes.txt'') \<mapsto> [1, 2, 3], (1, ''8-9-report.pdf'') \<mapsto> [4, 5])\<rparr>"

definition bob_row :: user_row where
  "bob_row = \<lparr>u_id = 2, username = ''bob'', email = ''bob@x.com'', password = ''#hunter22'',
              created_at = 20\<rparr>"

definition report_row :: file_row where
  "report_row = \<lparr>f_id = 2, user_id = 1, filename = ''8-9-report.pdf'', original_name = ''report.pdf'',
                 f_size = 2, mimetype = ''application/pdf'', upload_date = 70\<rparr>"

definition bobs_row :: file_row where
  "bobs_row = \<lparr>f_id = 3, user_id = 2, filename = ''6-1-todo.txt'', original_name = ''todo.txt'',
               f_size = 1, mimetype = ''text/plain'', upload_date = 60\<rparr>"

text \<open>Alice and Bob are registered; Alice has two files, Bob has one.\<close>

definition state2 :: state where
  "state2 = \<lparr>users = [alice_row, bob_row], users_seq = 2,
             files = [notes_row, report_row, bobs_row], files_seq = 3,
             disk = (\<lambda>p. None)((1, ''5-7-notes.txt'') \<mapsto> [1, 2, 3], (1, ''8-9-report.pdf'') \<mapsto> [4, 5],
                                (2, ''6-1-todo.txt'') \<mapsto> [6])\<rparr>"

section \<open>Registration and the current user\<close>

lemma next_rowid_fresh: "i \<in> set ids \<Longrightarrow> i < next_rowid seq ids"
proof -
  have "\<And>a. a \<le> fold max ids a \<and> (\<forall>i\<in>set ids. i \<le> fold max ids a)"
  proof (induction ids)
    case Nil
    show ?case by simp
  next
    case (Cons x xs)
    have "max x a \<le> fold max xs (max x a)" using Cons.IH by blast
    then show ?case using Cons.IH [of "max x a"] by auto
  qed
  then show "i \<in> set ids \<Longrightarrow> i < next_rowid seq ids"
    by (auto simp: next_rowid_def intro: le_less_trans)
qed

text \<open>
  Claim C6, amended. With a non-empty username, a non-empty email and a password of six
  characters or more, \<open>register\<close> creates the user (201, one row appended under a fresh
  rowid, the password stored as its hash) when no row of \<open>users\<close> has that username or
  that email, and answers 400 \<^verbatim>\<open>User already exists\<close> without touching the state when
  some row has. A missing or empty username, email or password is answered 400
  \<^verbatim>\<open>All fields are required\<close>, whatever \<open>users\<close> holds. A password shorter than six
  characters is answered by a validation error (400): \<^verbatim>\<open>Password must be at least 6
  characters\<close> when the three fields are present, whether or not the username or the
  email is taken. In every refusal the state is what it was.
\<close>

theorem register_creates_iff_unique:
  "(n \<noteq> [] \<and> m \<noteq> [] \<and> 6 \<le> length p \<longrightarrow>
      ((\<forall>r\<in>set (users s). username r \<noteq> n \<and> email r \<noteq> m) \<longrightarrow>
         register e (Some n) (Some m) (Some p) s =
           (let rowid = next_rowid (users_seq s) (map u_id (users s)) in
            (Json 201
               (Registered ''User registered successfully''
                  (jwt_sign \<lparr>tok_id = rowid, tok_username = n, tok_email = m\<rparr> e)
                  \<lparr>pu_id = rowid, pu_username = n, pu_email = m\<rparr>),
             s\<lparr>users := users s @ [\<lparr>u_id = rowid, username = n, email = m,
                                      password = bcrypt_hash e p, created_at = clock e\<rparr>],
               users_seq := rowid\<rparr>))) \<and>
      ((\<exists>r\<in>set (users s). username r = n \<or> email r = m) \<longrightarrow>
         register e (Some n) (Some m) (Some p) s = (Json 400 (Error ''User already exists''), s))) \<and>
   (falsy uname \<or> falsy mail \<or> falsy pw \<longrightarrow>
      register e uname mail pw s = (Json 400 (Error ''All fields are required''), s)) \<and>
   (\<not> falsy uname \<and> \<not> falsy mail \<and> q \<noteq> [] \<and> length q < 6 \<longrightarrow>
      register e uname mail (Some q) s = (Json 400 (Error ''Password must be at least 6 characters''), s)) \<and>
   (length q < 6 \<longrightarrow>
      register e uname mail (Some q) s = (Json 400 (Error ''All fields are required''), s) \<or>
      register e uname mail (Some q) s = (Json 400 (Error ''Password must be at least 6 characters''), s))"
proof -
  have missing: "register e uname mail pw s = (Json 400 (Error ''All fields are required''), s)"
    if "falsy uname \<or> falsy mail \<or> falsy pw"
    using that by (simp add: register_def)
  have weak: "register e uname mail (Some q) s = (Json 400 (Error ''Password must be at least 6 characters''), s)"
    if "\<not> falsy uname \<and> \<not> falsy mail \<and> q \<noteq> [] \<and> length q < 6"
    using that by (simp add: register_def falsy_def)
  have created: "register e (Some n) (Some m) (Some p) s =
           (let rowid = next_rowid (users_seq s) (map u_id (users s)) in
            (Json 201
               (Registered ''User registered successfully''
                  (jwt_sign \<lparr>tok_id = rowid, tok_username = n, tok_email = m\<rparr> e)
                  \<lparr>pu_id = rowid, pu_username = n, pu_email = m\<rparr>),
             s\<lparr>users := users s @ [\<lparr>u_id = rowid, username = n, email = m,
                                      password = bcrypt_hash e p, created_at = clock e\<rparr>],
               users_seq := rowid\<rparr>))"
    if v: "n \<noteq> []" "m \<noteq> []" "6 \<le> length p"
      and fresh: "\<forall>r\<in>set (users s). username r \<noteq> n \<and> email r \<noteq> m"
  proof -
    have f: "find (\<lambda>r. email r = m \<or> username r = n) (users s) = None"
      using fresh by (auto simp: find_None_iff)
    have x: "\<not> list_ex (\<lambda>r. username r = n \<or> email r = m) (users s)"
      using fresh by (auto simp: list_ex_iff)
    have pne: "p \<noteq> []" using v(3) by auto
    show ?thesis using v f x pne
      by (simp add: register_def falsy_def insert_user_def Let_def)
  qed
  have conflict: "register e (Some n) (Some m) (Some p) s = (Json 400 (Error ''User already exists''), s)"
    if v: "n \<noteq> []" "m \<noteq> []" "6 \<le> length p"
      and ex: "\<exists>r\<in>set (users s). username r = n \<or> email r = m"
  proof -
    have "find (\<lambda>r. email r = m \<or> username r = n) (users s) \<noteq> None"
      using ex by (auto simp: find_None_iff)
    then obtain r where "find (\<lambda>r. email r = m \<or> username r = n) (users s) = Some r" by auto
    moreover have "p \<noteq> []" using v(3) by auto
    ultimately show ?thesis using v by (simp add: register_def falsy_def)
  qed
  have short: "register e uname mail (Some q) s = (Json 400 (Error ''All fields are required''), s) \<or>
      register e uname mail (Some q) s = (Json 400 (Error ''Password must be at least 6 characters''), s)"
    if "length q < 6"
    using that by (simp add: register_def)
  show ?thesis using created conflict short missing weak by blast
qed

text \<open>
  Claim C6 as stated fails: the fields are checked before the lookup. With the empty
  username, on a server without users, nobody shares the username or the email and
  yet no user is created; with the empty username and Alice's email, the answer is the
  validation error, not \<^verbatim>\<open>User already exists\<close>.
\<close>

theorem register_empty_username_counterexample:
  "users empty_state = [] \<and>
   register env0 (Some []) (Some ''x@y.com'') (Some ''secret1'') empty_state =
     (Json 400 (Error ''All fields are required''), empty_state) \<and>
   map email (users state1) = [''alice@x.com''] \<and>
   register env0 (Some []) (Some ''alice@x.com'') (Some ''secret1'') state1 =
     (Json 400 (Error ''All fields are required''), state1)"
  by (simp add: register_def falsy_def empty_state_def state1_def alice_row_def)

text \<open>Alice registers on the empty server; her email cannot be registered again; a
  request without a username, and a password of five characters, are refused.\<close>

theorem register_creates_iff_unique_witness:
  "register env0 (Some ''alice'') (Some ''alice@x.com'') (Some ''secret1'') empty_state =
     (Json 201
        (Registered ''User registered successfully''
           \<lparr>claims = alice, expiry = 604900, signed_with = ''k''\<rparr>
           \<lparr>pu_id = 1, pu_username = ''alice'', pu_email = ''alice@x.com''\<rparr>),
      empty_state\<lparr>users := [alice_row\<lparr>created_at := 100\<rparr>], users_seq := 1\<rparr>) \<and>
   register env0 (Some ''alice2'') (Some ''alice@x.com'') (Some ''secret1'') state1 =
     (Json 400 (Error ''User already exists''), state1) \<and>
   register env0 None (Some ''bob@x.com'') (Some ''secret1'') state1 =
     (Json 400 (Error ''All fields are required''), state1) \<and>
   register env0 (Some ''bob'') (Some ''bob@x.com'') (Some ''12345'') state1 =
     (Json 400 (Error ''Password must be at least 6 characters''), state1)"
proof -
  have 1: "register env0 (Some ''alice'') (Some ''alice@x.com'') (Some ''secret1'') empty_state =
     (Json 201
        (Registered ''User registered successfully''
           \<lparr>claims = alice, expiry = 604900, signed_with = ''k''\<rparr>
           \<lparr>pu_id = 1, pu_username = ''alice'', pu_email = ''alice@x.com''\<rparr>),
      empty_state\<lparr>users := [alice_row\<lparr>created_at := 100\<rparr>], users_seq := 1\<rparr>)"
    using register_creates_iff_unique [where n = "''alice''" and m = "''alice@x.com''"
        and p = "''secret1''" and s = empty_state and e = env0 and q = "''12345''" and pw = None]
    by (simp add: empty_state_def alice_row_def env0_def next_rowid_def jwt_sign_def alice_def)
  have 2: "register env0 (Some ''alice2'') (Some ''alice@x.com'') (Some ''secret1'') state1 =
     (Json 400 (Error ''User already exists''), state1)"
    using register_creates_iff_unique [where n = "''alice2''" and m = "''alice@x.com''"
        and p = "''secret1''" and s = state1 and e = env0 and q = "''12345''" and pw = None]
    by (simp add: state1_def alice_row_def)
  have 3: "register env0 None (Some ''bob@x.com'') (Some ''secret1'') state1 =
     (Json 400 (Error ''All fields are required''), state1)"
    using register_creates_iff_unique [where uname = None and mail = "Some ''bob@x.com''"
        and pw = "Some ''secret1''" and s = state1 and e = env0 and q = "''12345''"
        and n = "''a''" and m = "''b''" and p = "''c''"]
    by (simp add: falsy_def)
  have 4: "register env0 (Some ''bob'') (Some ''bob@x.com'') (Some ''12345'') state1 =
     (Json 400 (Error ''Password must be at least 6 characters''), state1)"
    using register_creates_iff_unique [where uname = "Some ''bob''" and mail = "Some ''bob@x.com''"
        and pw = None and s = state1 and e = env0 and q = "''12345''"
        and n = "''a''" and m = "''b''" and p = "''c''"]
    by (simp add: falsy_def)
  from 1 2 3 4 show ?thesis by (intro conjI)
qed

text \<open>
  Claim C10. A token whose signature and expiry are valid, but whose user identifier is
  the \<open>id\<close> of no row of \<open>users\<close>, gets 404 \<^verbatim>\<open>User not found\<close> from \<open>getCurrentUser\<close>; when a
  row has that \<open>id\<close>, the answer is made of the columns of that row, not of the username
  and email carried by the token.
\<close>

theorem getCurrentUser_rereads_store:
  "signed_with t = JWT_SECRET e \<and> clock e < expiry t \<longrightarrow>
     ((\<forall>r\<in>set (users s). u_id r \<noteq> tok_id (claims t)) \<longrightarrow>
        getCurrentUser e (Some t) s = (Json 404 (Error ''User not found''), s)) \<and>
     (\<forall>r. find (\<lambda>r. u_id r = tok_id (claims t)) (users s) = Some r \<longrightarrow>
        getCurrentUser e (Some t) s =
          (Json 200 (Me \<lparr>me_id = u_id r, me_username = username r, me_email = email r,
                          me_created_at = created_at r\<rparr>), s))"
proof (intro impI conjI allI)
  assume v: "signed_with t = JWT_SECRET e \<and> clock e < expiry t"
  then have a: "authenticateToken e (Some t) = Inr (claims t)"
    by (simp add: authenticateToken_def)
  {
    assume "\<forall>r\<in>set (users s). u_id r \<noteq> tok_id (claims t)"
    then have "find (\<lambda>r. u_id r = tok_id (claims t)) (users s) = None"
      by (simp add: find_None_iff)
    then show "getCurrentUser e (Some t) s = (Json 404 (Error ''User not found''), s)"
      using a by (simp add: getCurrentUser_def authenticated_def me_def)
  }
  {
    fix r assume "find (\<lambda>r. u_id r = tok_id (claims t)) (users s) = Some r"
    then show "getCurrentUser e (Some t) s =
          (Json 200 (Me \<lparr>me_id = u_id r, me_username = username r, me_email = email r,
                          me_created_at = created_at r\<rparr>), s)"
      using a by (simp add: getCurrentUser_def authenticated_def me_def)
  }
qed

text \<open>Bob's token is valid but Bob is in no row; a valid token for user 1 that carries
  another username gets Alice's row.\<close>

theorem getCurrentUser_rereads_store_witness:
  "getCurrentUser env0 (Some (token_of bob)) state1 = (Json 404 (Error ''User not found''), state1) \<and>
   getCurrentUser env0 (Some (token_of (alice\<lparr>tok_username := ''mallory''\<rparr>))) state1 =
     (Json 200 (Me \<lparr>me_id = 1, me_username = ''alice'', me_email = ''alice@x.com'',
                     me_created_at = 10\<rparr>), state1)"
  using getCurrentUser_rereads_store [where t = "token_of bob" and e = env0 and s = state1]
    getCurrentUser_rereads_store [where t = "token_of (alice\<lparr>tok_username := ''mallory''\<rparr>)"
      and e = env0 and s = state1]
  by (simp add: token_of_def env0_def state1_def alice_row_def alice_def bob_def)

section \<open>The file routes\<close>

lemma authenticated_Inr:
  "authenticateToken e hdr = Inr u \<Longrightarrow> authenticated e hdr h s = h u s"
  by (simp add: authenticated_def)

lemma getOwned_None_iff:
  "getOwned fileId uid s = None \<longleftrightarrow> (\<forall>r\<in>set (files s). f_id r = fileId \<longrightarrow> user_id r \<noteq> uid)"
  by (auto simp: getOwned_def find_None_iff)

lemma getOwned_Some:
  "getOwned fileId uid s = Some file \<Longrightarrow> file \<in> set (files s) \<and> f_id file = fileId \<and> user_id file = uid"
  by (auto simp: getOwned_def find_Some_iff)

text \<open>
  Claim C9. For an authenticated caller, \<open>listFiles\<close> answers 200 with one entry for
  each row of a list of rows that is a permutation of the rows of \<open>files\<close> whose
  \<open>user_id\<close> is the caller's identifier (every such row once, no other row, none cut
  off), ordered by \<open>upload_date\<close> descending. The entry of a row carries the row's
  \<open>id\<close>, \<open>filename\<close>, \<open>original_name\<close>, \<open>size\<close>, \<open>mimetype\<close> and \<open>upload_date\<close>. The state is
  not changed.
\<close>

theorem listFiles_owned_newest_first:
  "authenticateToken e hdr = Inr u \<longrightarrow>
     (\<exists>rows. listFiles e hdr s =
          (Json 200 (Files (map (\<lambda>r. \<lparr>l_id = f_id r, l_filename = filename r,
                                      l_original_name = original_name r, l_size = f_size r,
                                      l_mimetype = mimetype r, l_upload_date = upload_date r\<rparr>) rows)), s) \<and>
        mset rows = mset (filter (\<lambda>r. user_id r = tok_id u) (files s)) \<and>
        sorted_wrt (\<lambda>a b. upload_date b \<le> upload_date a) rows)"
proof
  assume a: "authenticateToken e hdr = Inr u"
  define owned where "owned = filter (\<lambda>r. user_id r = tok_id u) (files s)"
  define rows where "rows = sort_key (\<lambda>r. - int (upload_date r)) owned"
  have "sorted (map (\<lambda>r. - int (upload_date r)) rows)"
    unfolding rows_def by (rule sorted_sort_key)
  then have "sorted_wrt (\<lambda>a b. - int (upload_date a) \<le> - int (upload_date b)) rows"
    by (simp add: sorted_map)
  then have desc: "sorted_wrt (\<lambda>a b. upload_date b \<le> upload_date a) rows"
    by (rule sorted_wrt_mono_rel [rotated]) simp
  have perm: "mset rows = mset owned"
    unfolding rows_def by simp
  have cols: "select_columns = (\<lambda>r. \<lparr>l_id = f_id r, l_filename = filename r,
                                      l_original_name = original_name r, l_size = f_size r,
                                      l_mimetype = mimetype r, l_upload_date = upload_date r\<rparr>)"
    by (rule ext) (simp add: select_columns_def)
  have "listFiles e hdr s =
          (Json 200 (Files (map (\<lambda>r. \<lparr>l_id = f_id r, l_filename = filename r,
                                      l_original_name = original_name r, l_size = f_size r,
                                      l_mimetype = mimetype r, l_upload_date = upload_date r\<rparr>) rows)), s)"
    using a by (simp add: listFiles_def authenticated_Inr get_files_def rows_def owned_def cols)
  with perm desc show "\<exists>rows. listFiles e hdr s =
          (Json 200 (Files (map (\<lambda>r. \<lparr>l_id = f_id r, l_filename = filename r,
                                      l_original_name = original_name r, l_size = f_size r,
                                      l_mimetype = mimetype r, l_upload_date = upload_date r\<rparr>) rows)), s) \<and>
        mset rows = mset (filter (\<lambda>r. user_id r = tok_id u) (files s)) \<and>
        sorted_wrt (\<lambda>a b. upload_date b \<le> upload_date a) rows"
    unfolding owned_def by blast
qed


text \<open>Alice lists her two files, the newer first; Bob's file is not among them.\<close>

theorem listFiles_owned_newest_first_witness:
  "(\<exists>rows. listFiles env0 (Some (token_of alice)) state2 =
        (Json 200 (Files (map (\<lambda>r. \<lparr>l_id = f_id r, l_filename = filename r,
                                    l_original_name = original_name r, l_size = f_size r,
                                    l_mimetype = mimetype r, l_upload_date = upload_date r\<rparr>) rows)), state2) \<and>
      mset rows = mset (filter (\<lambda>r. user_id r = tok_id alice) (files state2)) \<and>
      sorted_wrt (\<lambda>a b. upload_date b \<le> upload_date a) rows) \<and>
   listFiles env0 (Some (token_of alice)) state2 =
     (Json 200 (Files
        [\<lparr>l_id = 2, l_filename = ''8-9-report.pdf'', l_original_name = ''report.pdf'', l_size = 2,
          l_mimetype = ''application/pdf'', l_upload_date = 70\<rparr>,
         \<lparr>l_id = 1, l_filename = ''5-7-notes.txt'', l_original_name = ''notes.txt'', l_size = 3,
          l_mimetype = ''text/plain'', l_upload_date = 50\<rparr>]), state2)"
proof -
  have a: "authenticateToken env0 (Some (token_of alice)) = Inr alice"
    by (simp add: authenticateToken_def env0_def token_of_def)
  have "listFiles env0 (Some (token_of alice)) state2 =
     (Json 200 (Files
        [\<lparr>l_id = 2, l_filename = ''8-9-report.pdf'', l_original_name = ''report.pdf'', l_size = 2,
          l_mimetype = ''application/pdf'', l_upload_date = 70\<rparr>,
         \<lparr>l_id = 1, l_filename = ''5-7-notes.txt'', l_original_name = ''notes.txt'', l_size = 3,
          l_mimetype = ''text/plain'', l_upload_date = 50\<rparr>]), state2)"
    using a by (simp add: listFiles_def authenticated_Inr get_files_def state2_def alice_def
        notes_row_def report_row_def bobs_row_def select_columns_def)
  moreover have "\<exists>rows. listFiles env0 (Some (token_of alice)) state2 =
        (Json 200 (Files (map (\<lambda>r. \<lparr>l_id = f_id r, l_filename = filename r,
                                    l_original_name = original_name r, l_size = f_size r,
                                    l_mimetype = mimetype r, l_upload_date = upload_date r\<rparr>) rows)), state2) \<and>
      mset rows = mset (filter (\<lambda>r. user_id r = tok_id alice) (files state2)) \<and>
      sorted_wrt (\<lambda>a b. upload_date b \<le> upload_date a) rows"
    using listFiles_owned_newest_first [where e = env0 and hdr = "Some (token_of alice)"
        and u = alice and s = state2] a
    by blast
  ultimately show ?thesis by (intro conjI)
qed

subsection \<open>Rename\<close>

lemma others_kept:
  "filter (\<lambda>r. f_id r \<noteq> k) (map (\<lambda>r. if f_id r = k then r\<lparr>original_name := n\<rparr> else r) xs) =
   filter (\<lambda>r. f_id r \<noteq> k) xs"
  by (induction xs) auto

lemma rest_kept:
  "map (\<lambda>r. r\<lparr>original_name := []\<rparr>) (map (\<lambda>r. if f_id r = k then r\<lparr>original_name := n\<rparr> else r) xs) =
   map (\<lambda>r. r\<lparr>original_name := []\<rparr>) xs"
  by (induction xs) auto

lemma renamed_named:
  "r \<in> set (map (\<lambda>r. if f_id r = k then r\<lparr>original_name := n\<rparr> else r) xs) \<Longrightarrow> f_id r = k \<Longrightarrow>
   original_name r = n"
proof (induction xs)
  case Nil
  then show ?case by simp
next
  case (Cons x xs)
  show ?case
  proof (cases "r = (if f_id x = k then x\<lparr>original_name := n\<rparr> else x)")
    case True
    with Cons.prems(2) show ?thesis by (cases "f_id x = k") auto
  next
    case False
    with Cons show ?thesis by simp
  qed
qed

text \<open>
  Claim C5. Renaming an owned file to a non-empty name answers 200 and leaves the disk
  (the stored bytes), the users and both counters as they were; every row of \<open>files\<close>
  keeps all its columns but \<open>original_name\<close> (so the stored name, the size, the owner and
  the upload date), the rows of other files are unchanged, and the renamed file has the
  new display name. A missing or empty new name is answered 400
  \<^verbatim>\<open>New name is required\<close> with the state unchanged, whether or not the file exists or
  is owned.
\<close>

theorem renameFile_changes_only_display_name:
  "authenticateToken e hdr = Inr u \<longrightarrow>
     (n \<noteq> [] \<and> (\<exists>r\<in>set (files s). f_id r = fileId \<and> user_id r = tok_id u) \<longrightarrow>
        (\<exists>s'. renameFile e hdr fileId (Some n) s = (Json 200 (Renamed ''File renamed successfully'' n), s') \<and>
           disk s' = disk s \<and> users s' = users s \<and>
           users_seq s' = users_seq s \<and> files_seq s' = files_seq s \<and>
           map (\<lambda>r. r\<lparr>original_name := []\<rparr>) (files s') = map (\<lambda>r. r\<lparr>original_name := []\<rparr>) (files s) \<and>
           filter (\<lambda>r. f_id r \<noteq> fileId) (files s') = filter (\<lambda>r. f_id r \<noteq> fileId) (files s) \<and>
           (\<forall>r\<in>set (files s'). f_id r = fileId \<longrightarrow> original_name r = n))) \<and>
     (falsy newName \<longrightarrow>
        renameFile e hdr fileId newName s = (Json 400 (Error ''New name is required''), s))"
proof (intro impI conjI)
  assume a: "authenticateToken e hdr = Inr u"
  {
    assume h: "n \<noteq> [] \<and> (\<exists>r\<in>set (files s). f_id r = fileId \<and> user_id r = tok_id u)"
    then have "getOwned fileId (tok_id u) s \<noteq> None"
      by (auto simp: getOwned_None_iff)
    then obtain fr where f: "getOwned fileId (tok_id u) s = Some fr" by auto
    let ?s' = "update_name n fileId s"
    have r: "renameFile e hdr fileId (Some n) s = (Json 200 (Renamed ''File renamed successfully'' n), ?s')"
      using a f h by (simp add: renameFile_def authenticated_Inr put_rename_def falsy_def)
    have m: "map (\<lambda>r. r\<lparr>original_name := []\<rparr>) (files ?s') = map (\<lambda>r. r\<lparr>original_name := []\<rparr>) (files s)"
      by (simp add: update_name_def rest_kept)
    have o: "filter (\<lambda>r. f_id r \<noteq> fileId) (files ?s') = filter (\<lambda>r. f_id r \<noteq> fileId) (files s)"
      by (simp add: update_name_def others_kept)
    have t: "\<forall>r\<in>set (files ?s'). f_id r = fileId \<longrightarrow> original_name r = n"
    proof (intro ballI impI)
      fix r
      assume "r \<in> set (files ?s')" and k: "f_id r = fileId"
      then have "r \<in> set (map (\<lambda>r. if f_id r = fileId then r\<lparr>original_name := n\<rparr> else r) (files s))"
        unfolding update_name_def by simp
      then show "original_name r = n" using k by (rule renamed_named)
    qed
    have d: "disk ?s' = disk s" and us: "users ?s' = users s"
      and q1: "users_seq ?s' = users_seq s" and q2: "files_seq ?s' = files_seq s"
      by (simp_all add: update_name_def)
    show "\<exists>s'. renameFile e hdr fileId (Some n) s = (Json 200 (Renamed ''File renamed successfully'' n), s') \<and>
           disk s' = disk s \<and> users s' = users s \<and>
           users_seq s' = users_seq s \<and> files_seq s' = files_seq s \<and>
           map (\<lambda>r. r\<lparr>original_name := []\<rparr>) (files s') = map (\<lambda>r. r\<lparr>original_name := []\<rparr>) (files s) \<and>
           filter (\<lambda>r. f_id r \<noteq> fileId) (files s') = filter (\<lambda>r. f_id r \<noteq> fileId) (files s) \<and>
           (\<forall>r\<in>set (files s'). f_id r = fileId \<longrightarrow> original_name r = n)"
      by (intro exI [of _ ?s'] conjI) (fact r d us q1 q2 m o t)+
  }
  {
    assume "falsy newName"
    then show "renameFile e hdr fileId newName s = (Json 400 (Error ''New name is required''), s)"
      using a by (simp add: renameFile_def authenticated_Inr put_rename_def)
  }
qed


text \<open>Alice renames her file 1; a rename of the absent file 99 without a name is a
  validation error.\<close>

theorem renameFile_changes_only_display_name_witness:
  "(\<exists>s'. renameFile env0 (Some (token_of alice)) 1 (Some ''ideas.txt'') state2 =
           (Json 200 (Renamed ''File renamed successfully'' ''ideas.txt''), s') \<and>
         disk s' = disk state2 \<and> users s' = users state2 \<and>
         users_seq s' = users_seq state2 \<and> files_seq s' = files_seq state2 \<and>
         map (\<lambda>r. r\<lparr>original_name := []\<rparr>) (files s') = map (\<lambda>r. r\<lparr>original_name := []\<rparr>) (files state2) \<and>
         filter (\<lambda>r. f_id r \<noteq> 1) (files s') = filter (\<lambda>r. f_id r \<noteq> 1) (files state2) \<and>
         list_all (\<lambda>r. f_id r \<noteq> 1 \<or> original_name r = ''ideas.txt'') (files s')) \<and>
   renameFile env0 (Some (token_of alice)) 99 None state2 = (Json 400 (Error ''New name is required''), state2)"
proof -
  have a: "authenticateToken env0 (Some (token_of alice)) = Inr alice"
    by (simp add: authenticateToken_def env0_def token_of_def)
  have o: "\<exists>r\<in>set (files state2). f_id r = 1 \<and> user_id r = tok_id alice"
    by (simp add: state2_def notes_row_def alice_def)
  have f: "falsy None"
    by (simp add: falsy_def)
  have n: "''ideas.txt'' \<noteq> []"
    by simp
  from renameFile_changes_only_display_name [where e = env0 and hdr = "Some (token_of alice)"
      and u = alice and s = state2 and fileId = 1 and n = "''ideas.txt''"] a o n
  obtain s' where "renameFile env0 (Some (token_of alice)) 1 (Some ''ideas.txt'') state2 =
           (Json 200 (Renamed ''File renamed successfully'' ''ideas.txt''), s')"
     "disk s' = disk state2" "users s' = users state2"
     "users_seq s' = users_seq state2" "files_seq s' = files_seq state2"
     "map (\<lambda>r. r\<lparr>original_name := []\<rparr>) (files s') = map (\<lambda>r. r\<lparr>original_name := []\<rparr>) (files state2)"
     "filter (\<lambda>r. f_id r \<noteq> 1) (files s') = filter (\<lambda>r. f_id r \<noteq> 1) (files state2)"
     "\<forall>r\<in>set (files s'). f_id r = 1 \<longrightarrow> original_name r = ''ideas.txt''"
    by blast
  moreover from this have "list_all (\<lambda>r. f_id r \<noteq> 1 \<or> original_name r = ''ideas.txt'') (files s')"
    by (auto simp: list_all_iff)
  moreover have "renameFile env0 (Some (token_of alice)) 99 None state2 = (Json 400 (Error ''New name is required''), state2)"
    using renameFile_changes_only_display_name [where e = env0 and hdr = "Some (token_of alice)"
      and u = alice and s = state2 and fileId = 99 and newName = None] a f
    by blast
  ultimately show ?thesis by blast
qed

subsection \<open>Ownership\<close>

text \<open>
  Claim C1, amended. For an authenticated caller and a file identifier that no row of
  \<open>files\<close> carries together with the caller's identifier (the file is absent, or owned
  by another user), download and delete answer 404 \<^verbatim>\<open>File not found\<close>, rename with a
  non-empty new name answers the same 404, and rename with a missing or empty new name
  answers 400 \<^verbatim>\<open>New name is required\<close>; the state is unchanged in each case. The
  response to each of the three requests is the same for a state where the file is
  absent as for a state where another user owns it.
\<close>

theorem not_owned_is_not_found:
  "authenticateToken e hdr = Inr u \<longrightarrow>
     ((\<forall>r\<in>set (files s). f_id r = fileId \<longrightarrow> user_id r \<noteq> tok_id u) \<longrightarrow>
        downloadFile e hdr fileId s = (Json 404 (Error ''File not found''), s) \<and>
        deleteFile e hdr fileId s = (Json 404 (Error ''File not found''), s) \<and>
        (\<not> falsy newName \<longrightarrow>
           renameFile e hdr fileId newName s = (Json 404 (Error ''File not found''), s)) \<and>
        (falsy newName \<longrightarrow>
           renameFile e hdr fileId newName s = (Json 400 (Error ''New name is required''), s))) \<and>
     ((\<forall>r\<in>set (files s1). f_id r \<noteq> fileId) \<and>
      (\<exists>r\<in>set (files s2). f_id r = fileId) \<and>
      (\<forall>r\<in>set (files s2). f_id r = fileId \<longrightarrow> user_id r \<noteq> tok_id u) \<longrightarrow>
        fst (downloadFile e hdr fileId s1) = fst (downloadFile e hdr fileId s2) \<and>
        fst (deleteFile e hdr fileId s1) = fst (deleteFile e hdr fileId s2) \<and>
        fst (renameFile e hdr fileId newName s1) = fst (renameFile e hdr fileId newName s2))"
proof (intro impI)
  assume a: "authenticateToken e hdr = Inr u"
  have one: "downloadFile e hdr fileId s = (Json 404 (Error ''File not found''), s) \<and>
        deleteFile e hdr fileId s = (Json 404 (Error ''File not found''), s) \<and>
        (\<not> falsy newName \<longrightarrow>
           renameFile e hdr fileId newName s = (Json 404 (Error ''File not found''), s)) \<and>
        (falsy newName \<longrightarrow>
           renameFile e hdr fileId newName s = (Json 400 (Error ''New name is required''), s))"
    if "\<forall>r\<in>set (files s). f_id r = fileId \<longrightarrow> user_id r \<noteq> tok_id u" for s
  proof -
    from that have g: "getOwned fileId (tok_id u) s = None"
      by (simp add: getOwned_None_iff)
    show ?thesis
      using a g
      by (simp add: downloadFile_def deleteFile_def renameFile_def authenticated_Inr
          get_download_def delete_file_def put_rename_def)
  qed
  have two: "fst (downloadFile e hdr fileId s1) = fst (downloadFile e hdr fileId s2) \<and>
        fst (deleteFile e hdr fileId s1) = fst (deleteFile e hdr fileId s2) \<and>
        fst (renameFile e hdr fileId newName s1) = fst (renameFile e hdr fileId newName s2)"
    if h: "(\<forall>r\<in>set (files s1). f_id r \<noteq> fileId) \<and>
      (\<exists>r\<in>set (files s2). f_id r = fileId) \<and>
      (\<forall>r\<in>set (files s2). f_id r = fileId \<longrightarrow> user_id r \<noteq> tok_id u)"
  proof -
    have "\<forall>r\<in>set (files s1). f_id r = fileId \<longrightarrow> user_id r \<noteq> tok_id u"
      using h by blast
    from one [OF this] one [of s2] h show ?thesis
      by (cases "falsy newName") simp_all
  qed
  from one two show "((\<forall>r\<in>set (files s). f_id r = fileId \<longrightarrow> user_id r \<noteq> tok_id u) \<longrightarrow>
        downloadFile e hdr fileId s = (Json 404 (Error ''File not found''), s) \<and>
        deleteFile e hdr fileId s = (Json 404 (Error ''File not found''), s) \<and>
        (\<not> falsy newName \<longrightarrow>
           renameFile e hdr fileId newName s = (Json 404 (Error ''File not found''), s)) \<and>
        (falsy newName \<longrightarrow>
           renameFile e hdr fileId newName s = (Json 400 (Error ''New name is required''), s))) \<and>
     ((\<forall>r\<in>set (files s1). f_id r \<noteq> fileId) \<and>
      (\<exists>r\<in>set (files s2). f_id r = fileId) \<and>
      (\<forall>r\<in>set (files s2). f_id r = fileId \<longrightarrow> user_id r \<noteq> tok_id u) \<longrightarrow>
        fst (downloadFile e hdr fileId s1) = fst (downloadFile e hdr fileId s2) \<and>
        fst (deleteFile e hdr fileId s1) = fst (deleteFile e hdr fileId s2) \<and>
        fst (renameFile e hdr fileId newName s1) = fst (renameFile e hdr fileId newName s2))"
    by blast
qed

text \<open>Alice asks for file 3, which is Bob's in \<open>state2\<close> and absent in \<open>state1\<close>.\<close>

theorem not_owned_is_not_found_witness:
  "downloadFile env0 (Some (token_of alice)) 3 state2 = (Json 404 (Error ''File not found''), state2) \<and>
   deleteFile env0 (Some (token_of alice)) 3 state2 = (Json 404 (Error ''File not found''), state2) \<and>
   renameFile env0 (Some (token_of alice)) 3 (Some ''mine.txt'') state2 =
     (Json 404 (Error ''File not found''), state2) \<and>
   fst (downloadFile env0 (Some (token_of alice)) 3 state1) =
     fst (downloadFile env0 (Some (token_of alice)) 3 state2) \<and>
   fst (deleteFile env0 (Some (token_of alice)) 3 state1) =
     fst (deleteFile env0 (Some (token_of alice)) 3 state2) \<and>
   fst (renameFile env0 (Some (token_of alice)) 3 (Some ''mine.txt'') state1) =
     fst (renameFile env0 (Some (token_of alice)) 3 (Some ''mine.txt'') state2)"
proof -
  have a: "authenticateToken env0 (Some (token_of alice)) = Inr alice"
    by (simp add: authenticateToken_def env0_def token_of_def)
  have other: "\<forall>r\<in>set (files state2). f_id r = 3 \<longrightarrow> user_id r \<noteq> tok_id alice"
    by (simp add: state2_def notes_row_def report_row_def bobs_row_def alice_def)
  have absent: "\<forall>r\<in>set (files state1). f_id r \<noteq> 3"
    by (simp add: state1_def notes_row_def)
  have present: "\<exists>r\<in>set (files state2). f_id r = 3"
    by (simp add: state2_def bobs_row_def)
  have n: "\<not> falsy (Some ''mine.txt'')"
    by (simp add: falsy_def)
  show ?thesis
    using not_owned_is_not_found [where e = env0 and hdr = "Some (token_of alice)" and u = alice
        and s = state2 and ?s1.0 = state1 and ?s2.0 = state2 and fileId = 3
        and newName = "Some ''mine.txt''"] a other absent present n
    by blast
qed

text \<open>
  Claim C1 as stated fails for rename: the new name is checked before the lookup, so a
  rename without a name (or with the empty name) of a file that another user owns, or
  of a file that does not exist, is answered 400 \<^verbatim>\<open>New name is required\<close>, not 404.
\<close>

theorem rename_without_name_counterexample:
  "getOwned 3 (tok_id alice) state2 = None \<and>
   map user_id (filter (\<lambda>r. f_id r = 3) (files state2)) = [tok_id bob] \<and>
   renameFile env0 (Some (token_of alice)) 3 None state2 =
     (Json 400 (Error ''New name is required''), state2) \<and>
   getOwned 99 (tok_id alice) state2 = None \<and>
   filter (\<lambda>r. f_id r = 99) (files state2) = [] \<and>
   renameFile env0 (Some (token_of alice)) 99 (Some []) state2 =
     (Json 400 (Error ''New name is required''), state2)"
  by (simp add: getOwned_def state2_def notes_row_def report_row_def bobs_row_def alice_def bob_def
      renameFile_def authenticated_def authenticateToken_def env0_def token_of_def put_rename_def
      falsy_def)

subsection \<open>Delete\<close>

lemma delete_row_removes: "getOwned fileId uid (delete_row fileId s) = None"
  by (simp add: getOwned_None_iff delete_row_def)

text \<open>
  Claim C3, amended. For a delete whose ownership lookup found the row: when the
  artifact is already absent the delete succeeds (200), the rows of that identifier
  leave \<open>files\<close> and the disk is untouched; when the artifact is present and
  \<^verbatim>\<open>unlinkSync\<close> succeeds, the artifact and the rows are removed (200); when the artifact
  is present and \<^verbatim>\<open>unlinkSync\<close> throws, the answer is 500 \<^verbatim>\<open>Failed to delete file\<close> and
  the state is unchanged, so the catalog record is kept.
\<close>

theorem deleteFile_owned:
  "authenticateToken e hdr = Inr u \<and> getOwned fileId (tok_id u) s = Some fr \<longrightarrow>
     (disk s (filePath (tok_id u) (filename fr)) = None \<longrightarrow>
        (\<exists>s'. deleteFile e hdr fileId s = (Json 200 (Message ''File deleted successfully''), s') \<and>
           files s' = filter (\<lambda>r. f_id r \<noteq> fileId) (files s) \<and>
           getOwned fileId (tok_id u) s' = None \<and>
           disk s' = disk s \<and> users s' = users s)) \<and>
     (disk s (filePath (tok_id u) (filename fr)) \<noteq> None \<and>
      \<not> unlink_throws e (filePath (tok_id u) (filename fr)) \<longrightarrow>
        (\<exists>s'. deleteFile e hdr fileId s = (Json 200 (Message ''File deleted successfully''), s') \<and>
           files s' = filter (\<lambda>r. f_id r \<noteq> fileId) (files s) \<and>
           getOwned fileId (tok_id u) s' = None \<and>
           disk s' = (disk s)(filePath (tok_id u) (filename fr) := None) \<and> users s' = users s)) \<and>
     (disk s (filePath (tok_id u) (filename fr)) \<noteq> None \<and>
      unlink_throws e (filePath (tok_id u) (filename fr)) \<longrightarrow>
        deleteFile e hdr fileId s = (Json 500 (Error ''Failed to delete file''), s))"
proof (intro impI conjI)
  assume h: "authenticateToken e hdr = Inr u \<and> getOwned fileId (tok_id u) s = Some fr"
  let ?p = "filePath (tok_id u) (filename fr)"
  have d: "deleteFile e hdr fileId s = delete_file e fileId u s"
    using h by (simp add: deleteFile_def authenticated_Inr)
  {
    assume n: "disk s ?p = None"
    have "deleteFile e hdr fileId s = (Json 200 (Message ''File deleted successfully''), delete_row fileId s)"
      using h n by (simp add: d delete_file_def)
    then show "\<exists>s'. deleteFile e hdr fileId s = (Json 200 (Message ''File deleted successfully''), s') \<and>
           files s' = filter (\<lambda>r. f_id r \<noteq> fileId) (files s) \<and>
           getOwned fileId (tok_id u) s' = None \<and>
           disk s' = disk s \<and> users s' = users s"
      using delete_row_removes [of fileId "tok_id u" s]
      by (intro exI [of _ "delete_row fileId s"]) (simp add: delete_row_def)
  }
  {
    assume n: "disk s ?p \<noteq> None \<and> \<not> unlink_throws e ?p"
    let ?s1 = "s\<lparr>disk := (disk s)(?p := None)\<rparr>"
    have "deleteFile e hdr fileId s = (Json 200 (Message ''File deleted successfully''), delete_row fileId ?s1)"
      using h n by (auto simp: d delete_file_def unlinkSync_def)
    then show "\<exists>s'. deleteFile e hdr fileId s = (Json 200 (Message ''File deleted successfully''), s') \<and>
           files s' = filter (\<lambda>r. f_id r \<noteq> fileId) (files s) \<and>
           getOwned fileId (tok_id u) s' = None \<and>
           disk s' = (disk s)(?p := None) \<and> users s' = users s"
      using delete_row_removes [of fileId "tok_id u" ?s1]
      by (intro exI [of _ "delete_row fileId ?s1"]) (simp add: delete_row_def)
  }
  {
    assume n: "disk s ?p \<noteq> None \<and> unlink_throws e ?p"
    show "deleteFile e hdr fileId s = (Json 500 (Error ''Failed to delete file''), s)"
      using h n by (auto simp: d delete_file_def unlinkSync_def)
  }
qed

text \<open>
  Claim C3 as stated fails: Alice deletes her file 1 while \<^verbatim>\<open>unlinkSync\<close> throws on its
  artifact. The answer is 500 and the catalog record is still there.
\<close>

theorem delete_keeps_record_counterexample:
  "getOwned 1 (tok_id alice) state1 = Some notes_row \<and>
   disk state1 (filePath (tok_id alice) (filename notes_row)) = Some [1, 2, 3] \<and>
   unlink_throws env_unlink_fault (filePath (tok_id alice) (filename notes_row)) \<and>
   deleteFile env_unlink_fault (Some (token_of alice)) 1 state1 =
     (Json 500 (Error ''Failed to delete file''), state1) \<and>
   files state1 = [notes_row]"
  by (simp add: getOwned_def state1_def notes_row_def alice_def filePath_def env_unlink_fault_def env0_def
      deleteFile_def authenticated_def authenticateToken_def token_of_def delete_file_def unlinkSync_def)

text \<open>The three cases for Alice's file 1: the artifact already gone, the artifact
  removed, and the removal failing.\<close>

theorem deleteFile_owned_witness:
  "(\<exists>s'. deleteFile env0 (Some (token_of alice)) 1 (state1\<lparr>disk := (\<lambda>p. None)\<rparr>) =
           (Json 200 (Message ''File deleted successfully''), s') \<and>
         files s' = filter (\<lambda>r. f_id r \<noteq> 1) (files (state1\<lparr>disk := (\<lambda>p. None)\<rparr>)) \<and>
         getOwned 1 (tok_id alice) s' = None \<and>
         disk s' = disk (state1\<lparr>disk := (\<lambda>p. None)\<rparr>) \<and> users s' = users (state1\<lparr>disk := (\<lambda>p. None)\<rparr>)) \<and>
   (\<exists>s'. deleteFile env0 (Some (token_of alice)) 1 state1 =
           (Json 200 (Message ''File deleted successfully''), s') \<and>
         files s' = filter (\<lambda>r. f_id r \<noteq> 1) (files state1) \<and>
         getOwned 1 (tok_id alice) s' = None \<and>
         disk s' = (disk state1)(filePath (tok_id alice) (filename notes_row) := None) \<and>
         users s' = users state1) \<and>
   deleteFile env_unlink_fault (Some (token_of alice)) 1 state1 =
     (Json 500 (Error ''Failed to delete file''), state1)"
proof -
  have a: "authenticateToken env0 (Some (token_of alice)) = Inr alice"
    "authenticateToken env_unlink_fault (Some (token_of alice)) = Inr alice"
    by (simp_all add: authenticateToken_def env_unlink_fault_def env0_def token_of_def)
  have g: "getOwned 1 (tok_id alice) state1 = Some notes_row"
    "getOwned 1 (tok_id alice) (state1\<lparr>disk := (\<lambda>p. None)\<rparr>) = Some notes_row"
    by (simp_all add: getOwned_def state1_def notes_row_def alice_def)
  have p: "disk state1 (filePath (tok_id alice) (filename notes_row)) \<noteq> None"
    "disk (state1\<lparr>disk := (\<lambda>p. None)\<rparr>) (filePath (tok_id alice) (filename notes_row)) = None"
    by (simp_all add: state1_def notes_row_def alice_def filePath_def)
  have t: "\<not> unlink_throws env0 (filePath (tok_id alice) (filename notes_row))"
    "unlink_throws env_unlink_fault (filePath (tok_id alice) (filename notes_row))"
    by (simp_all add: env_unlink_fault_def env0_def)
  show ?thesis
    using deleteFile_owned [where e = env0 and hdr = "Some (token_of alice)" and u = alice
        and s = "state1\<lparr>disk := (\<lambda>p. None)\<rparr>" and fileId = 1 and fr = notes_row]
      deleteFile_owned [where e = env0 and hdr = "Some (token_of alice)" and u = alice
        and s = state1 and fileId = 1 and fr = notes_row]
      deleteFile_owned [where e = env_unlink_fault and hdr = "Some (token_of alice)" and u = alice
        and s = state1 and fileId = 1 and fr = notes_row]
      a g p t
    by blast
qed

subsection \<open>Upload\<close>

lemma notes_stored: "storage_filename notes_part = ''5-7-notes.txt''"
  by code_simp

lemma stmt_run_Some:
  "stmt_run e uid f s = Some (rowid, s1) \<Longrightarrow>
     disk s1 = disk s \<and> users s1 = users s \<and>
     (\<exists>row. files s1 = files s @ [row] \<and> f_id row = rowid \<and> user_id row = uid \<and>
        filename row = file_filename f \<and> original_name row = file_originalname f \<and>
        f_size row = file_size f \<and> mimetype row = file_mimetype f \<and>
        (\<forall>r\<in>set (files s). f_id r < rowid))"
  by (auto simp: stmt_run_def Let_def next_rowid_fresh split: if_splits)

lemma insert_files_Inl:
  "insert_files e uid fs acc s = Inl s2 \<Longrightarrow>
     disk s2 = disk s \<and> users s2 = users s \<and>
     (\<exists>k<length fs. \<exists>rows. files s2 = files s @ rows \<and>
        list_all2 (\<lambda>r f. user_id r = uid \<and> filename r = file_filename f \<and>
                     original_name r = file_originalname f \<and> f_size r = file_size f \<and>
                     mimetype r = file_mimetype f) rows (take k fs) \<and>
        stmt_run e uid (fs ! k) s2 = None)"
proof (induction fs arbitrary: acc s)
  case Nil
  then show ?case by simp
next
  case (Cons f fs)
  let ?R = "(\<lambda>r f. user_id r = uid \<and> filename r = file_filename f \<and>
      original_name r = file_originalname f \<and> f_size r = file_size f \<and>
      mimetype r = file_mimetype f)"
  show ?case
  proof (cases "stmt_run e uid f s")
    case None
    with Cons.prems have s2: "s2 = s" by simp
    have "0 < length (f # fs)" by simp
    moreover have "files s2 = files s @ []" using s2 by simp
    moreover have "list_all2 ?R [] (take 0 (f # fs))" by simp
    moreover have "stmt_run e uid ((f # fs) ! 0) s2 = None" using None s2 by simp
    ultimately have "\<exists>k<length (f # fs). \<exists>rows. files s2 = files s @ rows \<and>
        list_all2 ?R rows (take k (f # fs)) \<and> stmt_run e uid ((f # fs) ! k) s2 = None"
      by blast
    then show ?thesis using s2 by simp
  next
    case (Some a)
    obtain rowid s1 where a: "a = (rowid, s1)" by (cases a)
    from Some a stmt_run_Some [of e uid f s rowid s1]
    obtain row where s1: "disk s1 = disk s" "users s1 = users s" "files s1 = files s @ [row]"
      and row: "user_id row = uid" "filename row = file_filename f"
        "original_name row = file_originalname f" "f_size row = file_size f"
        "mimetype row = file_mimetype f"
      by auto
    from Cons.prems Some a obtain acc' where "insert_files e uid fs acc' s1 = Inl s2" by simp
    from Cons.IH [OF this] obtain k rows where k: "disk s2 = disk s1" "users s2 = users s1"
      "k < length fs" "files s2 = files s1 @ rows" "list_all2 ?R rows (take k fs)"
      "stmt_run e uid (fs ! k) s2 = None"
      by blast
    have "Suc k < length (f # fs)" using k(3) by simp
    moreover have "files s2 = files s @ (row # rows)" using k(4) s1(3) by simp
    moreover have "list_all2 ?R (row # rows) (take (Suc k) (f # fs))" using k(5) row by simp
    moreover have "stmt_run e uid ((f # fs) ! Suc k) s2 = None" using k(6) by simp
    ultimately have "\<exists>k<length (f # fs). \<exists>rows. files s2 = files s @ rows \<and>
        list_all2 ?R rows (take k (f # fs)) \<and> stmt_run e uid ((f # fs) ! k) s2 = None"
      by blast
    then show ?thesis using k(1,2) s1(1,2) by simp
  qed
qed

lemma fold_write_keeps:
  "d x \<noteq> None \<Longrightarrow> fold (write_part uid) ps d x \<noteq> None"
  by (induction ps arbitrary: d) (simp_all add: write_part_def)

lemma fold_write_present:
  "p \<in> set ps \<Longrightarrow> fold (write_part uid) ps d (filePath uid (storage_filename p)) \<noteq> None"
proof (induction ps arbitrary: d)
  case Nil
  then show ?case by simp
next
  case (Cons q ps)
  show ?case
  proof (cases "p = q")
    case True
    have "write_part uid q d (filePath uid (storage_filename q)) \<noteq> None"
      by (simp add: write_part_def)
    then show ?thesis using True by (simp add: fold_write_keeps)
  next
    case False
    with Cons show ?thesis by simp
  qed
qed

lemma check_parts_None_iff:
  "check_parts limit filesLeft ps = None \<longleftrightarrow>
     length ps \<le> filesLeft \<and> (\<forall>p\<in>set ps. int (length (content p)) \<le> limit)"
  by (induction ps arbitrary: filesLeft) auto

lemma check_parts_count:
  "filesLeft < length ps \<Longrightarrow> \<forall>p\<in>set ps. int (length (content p)) \<le> limit \<Longrightarrow>
   check_parts limit filesLeft ps = Some LIMIT_UNEXPECTED_FILE"
  by (induction ps arbitrary: filesLeft) auto

lemma check_parts_size:
  "length ps \<le> filesLeft \<Longrightarrow> p \<in> set ps \<Longrightarrow> limit < int (length (content p)) \<Longrightarrow>
   check_parts limit filesLeft ps = Some LIMIT_FILE_SIZE"
proof (induction ps arbitrary: filesLeft)
  case Nil
  then show ?case by simp
next
  case (Cons q ps)
  show ?case
  proof (cases "limit < int (length (content q))")
    case True
    with Cons.prems(1) show ?thesis by simp
  next
    case False
    with Cons.prems have "length ps \<le> filesLeft - 1" and "p \<in> set ps" by auto
    then have "check_parts limit (filesLeft - 1) ps = Some LIMIT_FILE_SIZE"
      using Cons.prems(3) by (rule Cons.IH)
    with False Cons.prems(1) show ?thesis by simp
  qed
qed

lemma upload_array_Inr:
  "upload_array e uid parts s = Inr (req_files, s1) \<Longrightarrow>
     length parts \<le> 10 \<and> req_files = map to_file parts \<and>
     s1 = s\<lparr>disk := fold (write_part uid) parts (disk s)\<rparr>"
  by (auto simp: upload_array_def check_parts_None_iff split: option.splits)

text \<open>
  Claim C2, amended. When the middleware has written the files of an upload and the
  insert of one of them throws, the answer is 500 \<^verbatim>\<open>Failed to upload files\<close>; the disk is
  the disk as the middleware left it, so the artifact of every file of the request is
  still stored. The catalog is the catalog before the request followed by one row for
  each of the first \<open>k\<close> files of the request, in order, where file \<open>k\<close> is the file whose
  insert throws: the files before it have a catalog record, that file and the files
  after it have an artifact and no new record.
\<close>

theorem failed_upload_keeps_artifacts:
  "authenticateToken e hdr = Inr u \<and>
   upload_array e (tok_id u) parts s = Inr (req_files, s1) \<and>
   insert_files e (tok_id u) req_files [] s1 = Inl s2 \<longrightarrow>
     uploadFiles e hdr parts s = (Json 500 (Error ''Failed to upload files''), s2) \<and>
     disk s2 = fold (write_part (tok_id u)) parts (disk s) \<and>
     (\<forall>p\<in>set parts. disk s2 (filePath (tok_id u) (storage_filename p)) \<noteq> None) \<and>
     users s2 = users s \<and>
     (\<exists>k<length parts. \<exists>rows. files s2 = files s @ rows \<and>
        list_all2 (\<lambda>r p. user_id r = tok_id u \<and> filename r = storage_filename p \<and>
                      original_name r = originalname p \<and> f_size r = length (content p) \<and>
                      mimetype r = part_mimetype p) rows (take k parts) \<and>
        stmt_run e (tok_id u) (to_file (parts ! k)) s2 = None)"
proof
  assume h: "authenticateToken e hdr = Inr u \<and>
   upload_array e (tok_id u) parts s = Inr (req_files, s1) \<and>
   insert_files e (tok_id u) req_files [] s1 = Inl s2"
  from h upload_array_Inr [of e "tok_id u" parts s req_files s1]
  have ua: "req_files = map to_file parts" "s1 = s\<lparr>disk := fold (write_part (tok_id u)) parts (disk s)\<rparr>"
    by auto
  from h have ne: "req_files \<noteq> []" by auto
  have r: "uploadFiles e hdr parts s = (Json 500 (Error ''Failed to upload files''), s2)"
    using h ne by (simp add: uploadFiles_def authenticated_Inr post_upload_def)
  from h insert_files_Inl [of e "tok_id u" req_files "[]" s1 s2]
  obtain k rows where k: "disk s2 = disk s1" "users s2 = users s1" "k < length req_files"
    "files s2 = files s1 @ rows"
    "list_all2 (\<lambda>r f. user_id r = tok_id u \<and> filename r = file_filename f \<and>
                     original_name r = file_originalname f \<and> f_size r = file_size f \<and>
                     mimetype r = file_mimetype f) rows (take k req_files)"
    "stmt_run e (tok_id u) (req_files ! k) s2 = None"
    by blast
  have d: "disk s2 = fold (write_part (tok_id u)) parts (disk s)"
    using k(1) ua(2) by simp
  have a: "\<forall>p\<in>set parts. disk s2 (filePath (tok_id u) (storage_filename p)) \<noteq> None"
    using d by (simp add: fold_write_present)
  have us: "users s2 = users s"
    using k(2) ua(2) by simp
  have kp: "k < length parts" using k(3) ua(1) by simp
  have f: "files s2 = files s @ rows"
    using k(4) ua(2) by simp
  have "take k req_files = map to_file (take k parts)"
    by (simp add: ua(1) take_map)
  with k(5) have l: "list_all2 (\<lambda>r p. user_id r = tok_id u \<and> filename r = storage_filename p \<and>
                      original_name r = originalname p \<and> f_size r = length (content p) \<and>
                      mimetype r = part_mimetype p) rows (take k parts)"
    by (simp add: list_all2_map2 to_file_def)
  have t: "stmt_run e (tok_id u) (to_file (parts ! k)) s2 = None"
    using k(6) kp by (simp add: ua(1))
  from kp f l t have "\<exists>k<length parts. \<exists>rows. files s2 = files s @ rows \<and>
        list_all2 (\<lambda>r p. user_id r = tok_id u \<and> filename r = storage_filename p \<and>
                      original_name r = originalname p \<and> f_size r = length (content p) \<and>
                      mimetype r = part_mimetype p) rows (take k parts) \<and>
        stmt_run e (tok_id u) (to_file (parts ! k)) s2 = None"
    by blast
  with r d a us show "uploadFiles e hdr parts s = (Json 500 (Error ''Failed to upload files''), s2) \<and>
     disk s2 = fold (write_part (tok_id u)) parts (disk s) \<and>
     (\<forall>p\<in>set parts. disk s2 (filePath (tok_id u) (storage_filename p)) \<noteq> None) \<and>
     users s2 = users s \<and>
     (\<exists>k<length parts. \<exists>rows. files s2 = files s @ rows \<and>
        list_all2 (\<lambda>r p. user_id r = tok_id u \<and> filename r = storage_filename p \<and>
                      original_name r = originalname p \<and> f_size r = length (content p) \<and>
                      mimetype r = part_mimetype p) rows (take k parts) \<and>
        stmt_run e (tok_id u) (to_file (parts ! k)) s2 = None)"
    by blast
qed

text \<open>The writes and the loop of one upload of Alice whose insert throws.\<close>

lemma upload_fault_facts:
  "upload_array env_insert_fault 1 [notes_part] state0 =
     Inr ([to_file notes_part], state0\<lparr>disk := (\<lambda>p. None)((1, ''5-7-notes.txt'') \<mapsto> [1, 2, 3])\<rparr>)"
  "insert_files env_insert_fault 1 [to_file notes_part] []
     (state0\<lparr>disk := (\<lambda>p. None)((1, ''5-7-notes.txt'') \<mapsto> [1, 2, 3])\<rparr>) =
     Inl (state0\<lparr>disk := (\<lambda>p. None)((1, ''5-7-notes.txt'') \<mapsto> [1, 2, 3])\<rparr>)"
  by (simp_all add: upload_array_def env_insert_fault_def env0_def fileSize_def notes_part_def
      state0_def write_part_def filePath_def notes_stored [unfolded notes_part_def]
      stmt_run_def Let_def)

text \<open>
  Claim C2 as stated fails: the write of \<^verbatim>\<open>notes.txt\<close> succeeds, the insert of its row
  throws, and after the request the artifact is on the disk while \<open>files\<close> is empty.
\<close>

theorem orphaned_artifact_counterexample:
  "upload_array env_insert_fault (tok_id alice) [notes_part] state0 =
     Inr ([to_file notes_part], state0\<lparr>disk := (\<lambda>p. None)((1, ''5-7-notes.txt'') \<mapsto> [1, 2, 3])\<rparr>) \<and>
   stmt_run env_insert_fault (tok_id alice) (to_file notes_part)
     (state0\<lparr>disk := (\<lambda>p. None)((1, ''5-7-notes.txt'') \<mapsto> [1, 2, 3])\<rparr>) = None \<and>
   uploadFiles env_insert_fault (Some (token_of alice)) [notes_part] state0 =
     (Json 500 (Error ''Failed to upload files''),
      state0\<lparr>disk := (\<lambda>p. None)((1, ''5-7-notes.txt'') \<mapsto> [1, 2, 3])\<rparr>) \<and>
   disk (snd (uploadFiles env_insert_fault (Some (token_of alice)) [notes_part] state0))
     (1, ''5-7-notes.txt'') = Some [1, 2, 3] \<and>
   files (snd (uploadFiles env_insert_fault (Some (token_of alice)) [notes_part] state0)) = []"
proof -
  have a: "authenticateToken env_insert_fault (Some (token_of alice)) = Inr alice"
    by (simp add: authenticateToken_def env_insert_fault_def env0_def token_of_def)
  have t: "tok_id alice = 1" by (simp add: alice_def)
  have r: "stmt_run env_insert_fault 1 (to_file notes_part)
     (state0\<lparr>disk := (\<lambda>p. None)((1, ''5-7-notes.txt'') \<mapsto> [1, 2, 3])\<rparr>) = None"
    by (simp add: stmt_run_def Let_def env_insert_fault_def)
  have u: "uploadFiles env_insert_fault (Some (token_of alice)) [notes_part] state0 =
     (Json 500 (Error ''Failed to upload files''),
      state0\<lparr>disk := (\<lambda>p. None)((1, ''5-7-notes.txt'') \<mapsto> [1, 2, 3])\<rparr>)"
    using a by (simp add: uploadFiles_def authenticated_Inr t upload_fault_facts post_upload_def r)
  show ?thesis
    unfolding t u using upload_fault_facts(1) r by (simp add: state0_def)
qed


text \<open>Two files, the insert of the second throws: both artifacts stay, one row is in
  the catalog.\<close>

lemma report_stored: "storage_filename report_part = ''8-9-report.pdf''"
  by code_simp

theorem failed_upload_keeps_artifacts_witness:
  "uploadFiles env_report_fault (Some (token_of alice)) [notes_part, report_part] state0 =
     (Json 500 (Error ''Failed to upload files''), after_fault) \<and>
   disk after_fault = fold (write_part (tok_id alice)) [notes_part, report_part] (disk state0) \<and>
   list_all (\<lambda>p. disk after_fault (filePath (tok_id alice) (storage_filename p)) \<noteq> None)
     [notes_part, report_part] \<and>
   users after_fault = users state0 \<and>
   (\<exists>k<length [notes_part, report_part]. \<exists>rows. files after_fault = files state0 @ rows \<and>
      list_all2 (\<lambda>r p. user_id r = tok_id alice \<and> filename r = storage_filename p \<and>
                      original_name r = originalname p \<and> f_size r = length (content p) \<and>
                      mimetype r = part_mimetype p) rows (take k [notes_part, report_part]) \<and>
      stmt_run env_report_fault (tok_id alice) (to_file ([notes_part, report_part] ! k)) after_fault = None) \<and>
   files after_fault = files state0 @ [notes_row\<lparr>upload_date := 100\<rparr>] \<and>
   stmt_run env_report_fault (tok_id alice) (to_file report_part) after_fault = None"
proof -
  have a: "authenticateToken env_report_fault (Some (token_of alice)) = Inr alice"
    by (simp add: authenticateToken_def env_report_fault_def env0_def token_of_def)
  have t: "tok_id alice = 1" by (simp add: alice_def)
  define s1 where "s1 = state0\<lparr>disk := fold (write_part 1) [notes_part, report_part] (disk state0)\<rparr>"
  have w: "upload_array env_report_fault (tok_id alice) [notes_part, report_part] state0 =
     Inr ([to_file notes_part, to_file report_part], s1)"
    by (simp add: upload_array_def env_report_fault_def env0_def fileSize_def notes_part_def
        report_part_def s1_def t)
  have d1: "fold (write_part 1) [notes_part, report_part] (disk state0) = disk after_fault"
    by (simp add: write_part_def filePath_def notes_stored report_stored state0_def after_fault_def)
      (simp add: notes_part_def report_part_def)
  have s1': "s1 = state0\<lparr>disk := disk after_fault\<rparr>"
    unfolding s1_def d1 ..
  have i: "insert_files env_report_fault (tok_id alice) [to_file notes_part, to_file report_part] [] s1 =
     Inl after_fault"
    by (simp add: t stmt_run_def Let_def env_report_fault_def env0_def to_file_def notes_stored
        report_stored s1' next_rowid_def)
      (simp add: state0_def after_fault_def notes_part_def report_part_def notes_row_def)
  from failed_upload_keeps_artifacts [where e = env_report_fault and hdr = "Some (token_of alice)"
      and u = alice and parts = "[notes_part, report_part]" and s = state0
      and req_files = "[to_file notes_part, to_file report_part]" and ?s1.0 = s1
      and ?s2.0 = after_fault] a w i
  have c: "uploadFiles env_report_fault (Some (token_of alice)) [notes_part, report_part] state0 =
       (Json 500 (Error ''Failed to upload files''), after_fault)"
    "disk after_fault = fold (write_part (tok_id alice)) [notes_part, report_part] (disk state0)"
    "\<forall>p\<in>set [notes_part, report_part]. disk after_fault (filePath (tok_id alice) (storage_filename p)) \<noteq> None"
    "users after_fault = users state0"
    "\<exists>k<length [notes_part, report_part]. \<exists>rows. files after_fault = files state0 @ rows \<and>
      list_all2 (\<lambda>r p. user_id r = tok_id alice \<and> filename r = storage_filename p \<and>
                      original_name r = originalname p \<and> f_size r = length (content p) \<and>
                      mimetype r = part_mimetype p) rows (take k [notes_part, report_part]) \<and>
      stmt_run env_report_fault (tok_id alice) (to_file ([notes_part, report_part] ! k)) after_fault = None"
    by blast+
  have l: "list_all (\<lambda>p. disk after_fault (filePath (tok_id alice) (storage_filename p)) \<noteq> None)
     [notes_part, report_part]"
    using c(3) by (simp add: list_all_iff)
  have f: "files after_fault = files state0 @ [notes_row\<lparr>upload_date := 100\<rparr>]"
    by (simp add: after_fault_def state0_def)
  have r: "stmt_run env_report_fault (tok_id alice) (to_file report_part) after_fault = None"
    by (simp add: stmt_run_def Let_def env_report_fault_def to_file_def report_part_def)
  from c(1,2) l c(4,5) f r show ?thesis by (intro conjI)
qed

text \<open>The loop that returns has appended one row for each file, in order, under fresh
  and increasing rowids, and has not touched the disk.\<close>

lemma insert_files_Inr:
  "insert_files e uid fs acc s = Inr (ups, s') \<Longrightarrow>
     disk s' = disk s \<and> users s' = users s \<and>
     (\<exists>rows. files s' = files s @ rows \<and>
        ups = acc @ map (\<lambda>r. \<lparr>up_id = f_id r, up_filename = filename r,
                                 up_originalName = original_name r, up_size = f_size r,
                                 up_mimetype = mimetype r\<rparr>) rows \<and>
        list_all2 (\<lambda>r f. user_id r = uid \<and> filename r = file_filename f \<and>
                     original_name r = file_originalname f \<and> f_size r = file_size f \<and>
                     mimetype r = file_mimetype f) rows fs \<and>
        sorted_wrt (<) (map f_id rows) \<and>
        (\<forall>r\<in>set (files s). \<forall>r'\<in>set rows. f_id r < f_id r'))"
proof (induction fs arbitrary: acc s)
  case Nil
  then show ?case by simp
next
  case (Cons f fs)
  show ?case
  proof (cases "stmt_run e uid f s")
    case None
    with Cons.prems show ?thesis by simp
  next
    case (Some a)
    obtain rowid s1 where a: "a = (rowid, s1)" by (cases a)
    from Some a stmt_run_Some [of e uid f s rowid s1]
    obtain row where s1: "disk s1 = disk s" "users s1 = users s" "files s1 = files s @ [row]"
      and row: "f_id row = rowid" "user_id row = uid" "filename row = file_filename f"
        "original_name row = file_originalname f" "f_size row = file_size f"
        "mimetype row = file_mimetype f"
      and fresh: "\<forall>r\<in>set (files s). f_id r < rowid"
      by auto
    let ?up = "\<lambda>r. \<lparr>up_id = f_id r, up_filename = filename r,
                                 up_originalName = original_name r, up_size = f_size r,
                                 up_mimetype = mimetype r\<rparr>"
    have up: "\<lparr>up_id = rowid, up_filename = file_filename f,
               up_originalName = file_originalname f,
               up_size = file_size f, up_mimetype = file_mimetype f\<rparr> = ?up row"
      using row by simp
    from Cons.prems Some a
    have "insert_files e uid fs (acc @ [?up row]) s1 = Inr (ups, s')"
      by (simp add: up)
    from Cons.IH [OF this] obtain rows where
      r: "disk s' = disk s1" "users s' = users s1" "files s' = files s1 @ rows"
        "ups = (acc @ [?up row]) @ map ?up rows"
        "list_all2 (\<lambda>r f. user_id r = uid \<and> filename r = file_filename f \<and>
                     original_name r = file_originalname f \<and> f_size r = file_size f \<and>
                     mimetype r = file_mimetype f) rows fs"
        "sorted_wrt (<) (map f_id rows)"
        "\<forall>r\<in>set (files s1). \<forall>r'\<in>set rows. f_id r < f_id r'"
      by blast
    have 1: "files s' = files s @ (row # rows)" using r(3) s1(3) by simp
    have 2: "ups = acc @ map ?up (row # rows)" using r(4) by simp
    have 3: "list_all2 (\<lambda>r f. user_id r = uid \<and> filename r = file_filename f \<and>
                     original_name r = file_originalname f \<and> f_size r = file_size f \<and>
                     mimetype r = file_mimetype f) (row # rows) (f # fs)"
      using r(5) row by simp
    have 4: "sorted_wrt (<) (map f_id (row # rows))"
      using r(6,7) s1(3) by simp
    have 5: "\<forall>r\<in>set (files s). \<forall>r'\<in>set (row # rows). f_id r < f_id r'"
      using r(7) s1(3) fresh row(1) by simp
    have 6: "disk s' = disk s" "users s' = users s" using r(1,2) s1(1,2) by simp_all
    show ?thesis
      using 1 2 3 4 5 6 by (intro conjI exI [of _ "row # rows"]) assumption+
  qed
qed

lemma insert_files_no_fault:
  "\<forall>row. \<not> insert_throws e row \<Longrightarrow> \<exists>ups s'. insert_files e uid fs acc s = Inr (ups, s')"
proof (induction fs arbitrary: acc s)
  case Nil
  show ?case by simp
next
  case (Cons f fs)
  from Cons.prems obtain rowid s1 where "stmt_run e uid f s = Some (rowid, s1)"
    by (simp add: stmt_run_def Let_def)
  then show ?case using Cons.IH [OF Cons.prems] by simp
qed

lemma upload_array_accepts:
  "length parts \<le> 10 \<Longrightarrow> \<forall>p\<in>set parts. int (length (content p)) \<le> fileSize e \<Longrightarrow>
   upload_array e uid parts s =
     Inr (map to_file parts, s\<lparr>disk := fold (write_part uid) parts (disk s)\<rparr>)"
  by (simp add: upload_array_def check_parts_None_iff [THEN iffD2])

text \<open>
  Claim C8. For an authenticated caller: a request with more than 10 files, or with a
  file longer than \<open>fileSize\<close> bytes, is stopped before the handler (with
  \<open>LIMIT_UNEXPECTED_FILE\<close> when only the count is exceeded, with \<open>LIMIT_FILE_SIZE\<close> when
  only a size is), and a request with no file is answered 400 \<^verbatim>\<open>No files uploaded\<close>; in
  these cases the state is unchanged, so no catalog record is created. A request of one to ten files, each within \<open>fileSize\<close>, whose inserts
  do not throw, is answered 201 with one entry and one new row for each file. The limit
  \<open>fileSize\<close> is 10 MiB when \<^verbatim>\<open>MAX_FILE_SIZE\<close> is unset, and the configured number when it
  is a number other than 0.
\<close>

theorem upload_limits:
  "authenticateToken e hdr = Inr u \<longrightarrow>
     (10 < length parts \<or> (\<exists>p\<in>set parts. fileSize e < int (length (content p))) \<longrightarrow>
        (\<exists>err. uploadFiles e hdr parts s = (Rejected err, s))) \<and>
     (10 < length parts \<and> (\<forall>p\<in>set parts. int (length (content p)) \<le> fileSize e) \<longrightarrow>
        uploadFiles e hdr parts s = (Rejected LIMIT_UNEXPECTED_FILE, s)) \<and>
     (length parts \<le> 10 \<and> (\<exists>p\<in>set parts. fileSize e < int (length (content p))) \<longrightarrow>
        uploadFiles e hdr parts s = (Rejected LIMIT_FILE_SIZE, s)) \<and>
     (parts = [] \<longrightarrow> uploadFiles e hdr parts s = (Json 400 (Error ''No files uploaded''), s)) \<and>
     (parts \<noteq> [] \<and> length parts \<le> 10 \<and> (\<forall>p\<in>set parts. int (length (content p)) \<le> fileSize e) \<and>
      (\<forall>row. \<not> insert_throws e row) \<longrightarrow>
        (\<exists>ups s'. uploadFiles e hdr parts s = (Json 201 (Uploaded ''Files uploaded successfully'' ups), s') \<and>
           length ups = length parts \<and> length (files s') = length (files s) + length parts)) \<and>
     (MAX_FILE_SIZE e = None \<longrightarrow> fileSize e = 10 * 1024 * 1024) \<and>
     (\<forall>n. MAX_FILE_SIZE e = Some n \<and> n \<noteq> 0 \<longrightarrow> fileSize e = n)"
proof (intro impI conjI allI)
  assume a: "authenticateToken e hdr = Inr u"
  {
    assume "10 < length parts \<or> (\<exists>p\<in>set parts. fileSize e < int (length (content p)))"
    then have "\<not> (length parts \<le> 10 \<and> (\<forall>p\<in>set parts. int (length (content p)) \<le> fileSize e))"
      by (auto simp: not_le)
    then have "check_parts (fileSize e) 10 parts \<noteq> None"
      by (simp only: check_parts_None_iff not_False_eq_True)
    then obtain err where "check_parts (fileSize e) 10 parts = Some err" by auto
    then have "uploadFiles e hdr parts s = (Rejected err, s)"
      using a by (simp add: uploadFiles_def authenticated_Inr upload_array_def)
    then show "\<exists>err. uploadFiles e hdr parts s = (Rejected err, s)" ..
  }
  {
    assume "10 < length parts \<and> (\<forall>p\<in>set parts. int (length (content p)) \<le> fileSize e)"
    then have "check_parts (fileSize e) 10 parts = Some LIMIT_UNEXPECTED_FILE"
      by (simp add: check_parts_count)
    then show "uploadFiles e hdr parts s = (Rejected LIMIT_UNEXPECTED_FILE, s)"
      using a by (simp add: uploadFiles_def authenticated_Inr upload_array_def)
  }
  {
    assume "length parts \<le> 10 \<and> (\<exists>p\<in>set parts. fileSize e < int (length (content p)))"
    then have "check_parts (fileSize e) 10 parts = Some LIMIT_FILE_SIZE"
      by (auto intro: check_parts_size)
    then show "uploadFiles e hdr parts s = (Rejected LIMIT_FILE_SIZE, s)"
      using a by (simp add: uploadFiles_def authenticated_Inr upload_array_def)
  }
  {
    assume "parts = []"
    then show "uploadFiles e hdr parts s = (Json 400 (Error ''No files uploaded''), s)"
      using a by (simp add: uploadFiles_def authenticated_Inr upload_array_def post_upload_def)
  }
  {
    assume h: "parts \<noteq> [] \<and> length parts \<le> 10 \<and> (\<forall>p\<in>set parts. int (length (content p)) \<le> fileSize e) \<and>
      (\<forall>row. \<not> insert_throws e row)"
    let ?s1 = "s\<lparr>disk := fold (write_part (tok_id u)) parts (disk s)\<rparr>"
    have w: "upload_array e (tok_id u) parts s = Inr (map to_file parts, ?s1)"
      using h by (simp add: upload_array_accepts)
    from h insert_files_no_fault [of e "tok_id u" "map to_file parts" "[]" ?s1]
    obtain ups s' where i: "insert_files e (tok_id u) (map to_file parts) [] ?s1 = Inr (ups, s')"
      by blast
    from insert_files_Inr [OF i] obtain rows where
      r: "files s' = files ?s1 @ rows" "length ups = length rows" "length rows = length parts"
      by (auto dest: list_all2_lengthD)
    have "uploadFiles e hdr parts s = (Json 201 (Uploaded ''Files uploaded successfully'' ups), s')"
      using a h w i by (simp add: uploadFiles_def authenticated_Inr post_upload_def)
    moreover have "length ups = length parts" using r by simp
    moreover have "length (files s') = length (files s) + length parts" using r by simp
    ultimately show "\<exists>ups s'. uploadFiles e hdr parts s = (Json 201 (Uploaded ''Files uploaded successfully'' ups), s') \<and>
           length ups = length parts \<and> length (files s') = length (files s) + length parts"
      by blast
  }
  {
    assume "MAX_FILE_SIZE e = None"
    then show "fileSize e = 10 * 1024 * 1024" by (simp add: fileSize_def)
  }
  {
    fix n assume "MAX_FILE_SIZE e = Some n \<and> n \<noteq> 0"
    then show "fileSize e = n" by (simp add: fileSize_def)
  }
qed


text \<open>Eleven files; a file of three bytes under a limit of two; no file; one file
  within the default limit.\<close>

theorem upload_limits_witness:
  "uploadFiles env0 (Some (token_of alice)) (replicate 11 notes_part) state0 =
     (Rejected LIMIT_UNEXPECTED_FILE, state0) \<and>
   uploadFiles (env0\<lparr>MAX_FILE_SIZE := Some 2\<rparr>) (Some (token_of alice)) [notes_part] state0 =
     (Rejected LIMIT_FILE_SIZE, state0) \<and>
   uploadFiles env0 (Some (token_of alice)) [] state0 = (Json 400 (Error ''No files uploaded''), state0) \<and>
   (\<exists>ups s'. uploadFiles env0 (Some (token_of alice)) [notes_part] state0 =
        (Json 201 (Uploaded ''Files uploaded successfully'' ups), s') \<and>
      length ups = length [notes_part] \<and> length (files s') = length (files state0) + length [notes_part]) \<and>
   fileSize env0 = 10 * 1024 * 1024 \<and>
   fileSize (env0\<lparr>MAX_FILE_SIZE := Some 2\<rparr>) = 2"
proof -
  have a: "authenticateToken env0 (Some (token_of alice)) = Inr alice"
    "authenticateToken (env0\<lparr>MAX_FILE_SIZE := Some 2\<rparr>) (Some (token_of alice)) = Inr alice"
    by (simp_all add: authenticateToken_def env0_def token_of_def)
  have m: "MAX_FILE_SIZE env0 = None" "MAX_FILE_SIZE (env0\<lparr>MAX_FILE_SIZE := Some 2\<rparr>) = Some 2 \<and> (2::int) \<noteq> 0"
    by (simp_all add: env0_def)
  have many: "10 < length (replicate 11 notes_part) \<and>
      (\<forall>p\<in>set (replicate 11 notes_part). int (length (content p)) \<le> fileSize env0)"
    by (simp add: fileSize_def notes_part_def env0_def)
  have big: "length [notes_part] \<le> 10 \<and>
      (\<exists>p\<in>set [notes_part]. fileSize (env0\<lparr>MAX_FILE_SIZE := Some 2\<rparr>) < int (length (content p)))"
    by (simp add: fileSize_def notes_part_def)
  have ok: "[notes_part] \<noteq> [] \<and> length [notes_part] \<le> 10 \<and>
      (\<forall>p\<in>set [notes_part]. int (length (content p)) \<le> fileSize env0) \<and>
      (\<forall>row. \<not> insert_throws env0 row)"
    by (simp add: fileSize_def notes_part_def env0_def)
  have c1: "uploadFiles env0 (Some (token_of alice)) (replicate 11 notes_part) state0 =
     (Rejected LIMIT_UNEXPECTED_FILE, state0)"
    using upload_limits [where e = env0 and hdr = "Some (token_of alice)" and u = alice
        and parts = "replicate 11 notes_part" and s = state0] a(1) many
    by blast
  have c2: "uploadFiles (env0\<lparr>MAX_FILE_SIZE := Some 2\<rparr>) (Some (token_of alice)) [notes_part] state0 =
     (Rejected LIMIT_FILE_SIZE, state0)"
    and c6: "fileSize (env0\<lparr>MAX_FILE_SIZE := Some 2\<rparr>) = 2"
    using upload_limits [where e = "env0\<lparr>MAX_FILE_SIZE := Some 2\<rparr>" and hdr = "Some (token_of alice)"
        and u = alice and parts = "[notes_part]" and s = state0] a(2) m(2) big
    by blast+
  have c3: "uploadFiles env0 (Some (token_of alice)) [] state0 = (Json 400 (Error ''No files uploaded''), state0)"
    using upload_limits [where e = env0 and hdr = "Some (token_of alice)" and u = alice
        and parts = "[]" and s = state0] a(1)
    by blast
  have c4: "\<exists>ups s'. uploadFiles env0 (Some (token_of alice)) [notes_part] state0 =
        (Json 201 (Uploaded ''Files uploaded successfully'' ups), s') \<and>
      length ups = length [notes_part] \<and> length (files s') = length (files state0) + length [notes_part]"
    and c5: "fileSize env0 = 10 * 1024 * 1024"
    using upload_limits [where e = env0 and hdr = "Some (token_of alice)" and u = alice
        and parts = "[notes_part]" and s = state0] a(1) m(1) ok
    by blast+
  from c1 c2 c3 c4 c5 c6 show ?thesis
    by (intro conjI)
qed

subsection \<open>Upload, then download\<close>

lemma fold_write_other:
  "x \<notin> (\<lambda>p. filePath uid (storage_filename p)) ` set ps \<Longrightarrow> fold (write_part uid) ps d x = d x"
  by (induction ps arbitrary: d) (auto simp: write_part_def)

lemma fold_write_distinct:
  "distinct (map storage_filename ps) \<Longrightarrow> p \<in> set ps \<Longrightarrow>
   fold (write_part uid) ps d (filePath uid (storage_filename p)) = Some (content p)"
proof (induction ps arbitrary: d)
  case Nil
  then show ?case by simp
next
  case (Cons q ps)
  show ?case
  proof (cases "p \<in> set ps")
    case True
    with Cons show ?thesis by simp
  next
    case False
    with Cons.prems have pq: "p = q" by simp
    have "filePath uid (storage_filename q) \<notin> (\<lambda>p. filePath uid (storage_filename p)) ` set ps"
      using Cons.prems(1) by (auto simp: filePath_def)
    then have "fold (write_part uid) ps (write_part uid q d) (filePath uid (storage_filename q)) =
      write_part uid q d (filePath uid (storage_filename q))"
      by (rule fold_write_other)
    moreover have "write_part uid q d (filePath uid (storage_filename q)) = Some (content q)"
      by (simp add: write_part_def)
    ultimately show ?thesis using pq by simp
  qed
qed

text \<open>The lookup of a row the loop has just appended finds that row: older rows have
  smaller rowids, and the new rowids increase.\<close>

lemma find_new_row:
  assumes old: "\<forall>r\<in>set old. \<forall>r'\<in>set rows. f_id r < f_id r'"
    and inc: "sorted_wrt (<) (map f_id rows)"
    and i: "i < length rows"
    and own: "user_id (rows ! i) = uid"
  shows "find (\<lambda>r. f_id r = f_id (rows ! i) \<and> user_id r = uid) (old @ rows) = Some (rows ! i)"
proof -
  let ?P = "\<lambda>r. f_id r = f_id (rows ! i) \<and> user_id r = uid"
  let ?k = "length old + i"
  have k: "?k < length (old @ rows)" using i by simp
  have at: "(old @ rows) ! ?k = rows ! i" by (simp add: nth_append)
  have before: "\<not> ?P ((old @ rows) ! j)" if j: "j < ?k" for j
  proof (cases "j < length old")
    case True
    then have "old ! j \<in> set old" by simp
    moreover have "rows ! i \<in> set rows" using i by simp
    ultimately have "f_id (old ! j) < f_id (rows ! i)" using old by blast
    then show ?thesis using True by (simp add: nth_append)
  next
    case False
    let ?m = "j - length old"
    have m: "?m < i" using False j by simp
    have "sorted_wrt (\<lambda>a b. f_id a < f_id b) rows"
      using inc by (simp add: sorted_wrt_map)
    then have "f_id (rows ! ?m) < f_id (rows ! i)"
      using m i by (simp add: sorted_wrt_iff_nth_less)
    then show ?thesis using False by (simp add: nth_append)
  qed
  have "?P ((old @ rows) ! ?k)" using at own by simp
  with k at before show ?thesis
    unfolding find_Some_iff by (intro exI [of _ ?k]) simp
qed

text \<open>
  Claim C7. An authenticated user uploads one to ten files, each within the size limit,
  whose generated stored names differ from one another (as they do when one file is
  uploaded), and no insert throws. Then the upload is answered 201 with one entry for
  each file, and a download by the same user, under any valid token and at any later
  time, of the identifier returned for the \<open>i\<close>-th file answers with the bytes of that
  file and the name under which it was uploaded.
\<close>

theorem upload_download_roundtrip:
  "authenticateToken e hdr = Inr u \<and> authenticateToken e' hdr' = Inr u' \<and> tok_id u' = tok_id u \<and>
   parts \<noteq> [] \<and> length parts \<le> 10 \<and> (\<forall>p\<in>set parts. int (length (content p)) \<le> fileSize e) \<and>
   (\<forall>row. \<not> insert_throws e row) \<and> distinct (map storage_filename parts) \<longrightarrow>
     (\<exists>ups s'. uploadFiles e hdr parts s = (Json 201 (Uploaded ''Files uploaded successfully'' ups), s') \<and>
        length ups = length parts \<and>
        (\<forall>i<length parts.
           downloadFile e' hdr' (up_id (ups ! i)) s' =
             (Download (content (parts ! i)) (originalname (parts ! i)), s')))"
proof
  assume h: "authenticateToken e hdr = Inr u \<and> authenticateToken e' hdr' = Inr u' \<and> tok_id u' = tok_id u \<and>
   parts \<noteq> [] \<and> length parts \<le> 10 \<and> (\<forall>p\<in>set parts. int (length (content p)) \<le> fileSize e) \<and>
   (\<forall>row. \<not> insert_throws e row) \<and> distinct (map storage_filename parts)"
  let ?uid = "tok_id u"
  let ?s1 = "s\<lparr>disk := fold (write_part ?uid) parts (disk s)\<rparr>"
  let ?up = "\<lambda>r. \<lparr>up_id = f_id r, up_filename = filename r,
                                 up_originalName = original_name r, up_size = f_size r,
                                 up_mimetype = mimetype r\<rparr>"
  have w: "upload_array e ?uid parts s = Inr (map to_file parts, ?s1)"
    using h by (simp add: upload_array_accepts)
  from h insert_files_no_fault [of e ?uid "map to_file parts" "[]" ?s1]
  obtain ups s' where ins: "insert_files e ?uid (map to_file parts) [] ?s1 = Inr (ups, s')"
    by blast
  from insert_files_Inr [OF ins] obtain rows where
    d: "disk s' = disk ?s1"
    and f: "files s' = files ?s1 @ rows"
    and ups: "ups = [] @ map ?up rows"
    and rel: "list_all2 (\<lambda>r f. user_id r = ?uid \<and> filename r = file_filename f \<and>
                     original_name r = file_originalname f \<and> f_size r = file_size f \<and>
                     mimetype r = file_mimetype f) rows (map to_file parts)"
    and inc: "sorted_wrt (<) (map f_id rows)"
    and fresh: "\<forall>r\<in>set (files ?s1). \<forall>r'\<in>set rows. f_id r < f_id r'"
    by blast
  have len: "length rows = length parts"
    using rel by (auto dest: list_all2_lengthD)
  have resp: "uploadFiles e hdr parts s = (Json 201 (Uploaded ''Files uploaded successfully'' ups), s')"
    using h w ins by (simp add: uploadFiles_def authenticated_Inr post_upload_def)
  have dl: "downloadFile e' hdr' (up_id (ups ! i)) s' =
             (Download (content (parts ! i)) (originalname (parts ! i)), s')"
    if i: "i < length parts" for i
  proof -
    have ir: "i < length rows" using i len by simp
    have ri: "user_id (rows ! i) = ?uid" "filename (rows ! i) = storage_filename (parts ! i)"
      "original_name (rows ! i) = originalname (parts ! i)"
      using list_all2_nthD [OF rel ir] i by (simp_all add: to_file_def)
    have id: "up_id (ups ! i) = f_id (rows ! i)"
      using ups ir by simp
    have "getOwned (f_id (rows ! i)) ?uid s' = Some (rows ! i)"
      unfolding getOwned_def f using fresh inc ir ri(1) by (rule find_new_row)
    moreover have "disk s' (filePath ?uid (filename (rows ! i))) = Some (content (parts ! i))"
      using h i by (simp add: d ri(2) fold_write_distinct)
    ultimately show ?thesis
      using h by (simp add: downloadFile_def authenticated_Inr get_download_def id ri(3))
  qed
  from resp len ups dl
  show "\<exists>ups s'. uploadFiles e hdr parts s = (Json 201 (Uploaded ''Files uploaded successfully'' ups), s') \<and>
        length ups = length parts \<and>
        (\<forall>i<length parts.
           downloadFile e' hdr' (up_id (ups ! i)) s' =
             (Download (content (parts ! i)) (originalname (parts ! i)), s'))"
    by (intro exI [of _ ups] exI [of _ s']) simp
qed


text \<open>Alice uploads two files and downloads each by the identifier she was given.\<close>

theorem upload_download_roundtrip_witness:
  "\<exists>ups s'. uploadFiles env0 (Some (token_of alice)) [notes_part, report_part] state0 =
       (Json 201 (Uploaded ''Files uploaded successfully'' ups), s') \<and>
     length ups = 2 \<and>
     downloadFile (env0\<lparr>clock := 200\<rparr>) (Some (token_of alice)) (up_id (ups ! 0)) s' =
       (Download [1, 2, 3] ''notes.txt'', s') \<and>
     downloadFile (env0\<lparr>clock := 200\<rparr>) (Some (token_of alice)) (up_id (ups ! 1)) s' =
       (Download [4, 5] ''report.pdf'', s')"
proof -
  have a: "authenticateToken env0 (Some (token_of alice)) = Inr alice"
    "authenticateToken (env0\<lparr>clock := 200\<rparr>) (Some (token_of alice)) = Inr alice"
    by (simp_all add: authenticateToken_def env0_def token_of_def)
  have ok: "[notes_part, report_part] \<noteq> []" "length [notes_part, report_part] \<le> 10"
    "\<forall>p\<in>set [notes_part, report_part]. int (length (content p)) \<le> fileSize env0"
    "\<forall>row. \<not> insert_throws env0 row"
    by (simp_all add: fileSize_def notes_part_def report_part_def env0_def)
  have dist: "distinct (map storage_filename [notes_part, report_part])"
    by (simp add: notes_stored report_stored)
  from upload_download_roundtrip [where e = env0 and hdr = "Some (token_of alice)" and u = alice
      and e' = "env0\<lparr>clock := 200\<rparr>" and hdr' = "Some (token_of alice)" and u' = alice
      and parts = "[notes_part, report_part]" and s = state0] a ok dist
  obtain ups s' where
    r: "uploadFiles env0 (Some (token_of alice)) [notes_part, report_part] state0 =
       (Json 201 (Uploaded ''Files uploaded successfully'' ups), s')"
      "length ups = length [notes_part, report_part]"
    and d: "\<forall>i<length [notes_part, report_part].
           downloadFile (env0\<lparr>clock := 200\<rparr>) (Some (token_of alice)) (up_id (ups ! i)) s' =
             (Download (content ([notes_part, report_part] ! i))
                (originalname ([notes_part, report_part] ! i)), s')"
    by blast
  from d have "downloadFile (env0\<lparr>clock := 200\<rparr>) (Some (token_of alice)) (up_id (ups ! 0)) s' =
       (Download [1, 2, 3] ''notes.txt'', s')"
    by (simp add: notes_part_def)
  moreover from d have "downloadFile (env0\<lparr>clock := 200\<rparr>) (Some (token_of alice)) (up_id (ups ! 1)) s' =
       (Download [4, 5] ''report.pdf'', s')"
    by (simp add: report_part_def)
  ultimately show ?thesis using r by (intro exI [of _ ups] exI [of _ s']) simp
qed

subsection \<open>What the responses carry\<close>

lemma list_all2_originalnames:
  "list_all2 (\<lambda>r f. user_id r = uid \<and> filename r = file_filename f \<and>
                     original_name r = file_originalname f \<and> f_size r = file_size f \<and>
                     mimetype r = file_mimetype f) rows fs \<Longrightarrow>
   map original_name rows = map file_originalname fs"
  by (induction rows fs rule: list_all2_induct) simp_all

lemma list_all2_filenames:
  "list_all2 (\<lambda>r f. user_id r = uid \<and> filename r = file_filename f \<and>
                     original_name r = file_originalname f \<and> f_size r = file_size f \<and>
                     mimetype r = file_mimetype f) rows fs \<Longrightarrow>
   map filename rows = map file_filename fs"
  by (induction rows fs rule: list_all2_induct) simp_all

lemma uploadFiles_created:
  assumes a: "authenticateToken e hdr = Inr u"
    and r: "uploadFiles e hdr parts s = (Json 201 (Uploaded msg ups), s')"
  shows "insert_files e (tok_id u) (map to_file parts) []
           (s\<lparr>disk := fold (write_part (tok_id u)) parts (disk s)\<rparr>) = Inr (ups, s')"
proof (cases "upload_array e (tok_id u) parts s")
  case (Inl err)
  with a r show ?thesis by (simp add: uploadFiles_def authenticated_Inr)
next
  case (Inr b)
  obtain req_files s1 where b: "b = (req_files, s1)" by (cases b)
  from Inr b upload_array_Inr [of e "tok_id u" parts s req_files s1]
  have u: "req_files = map to_file parts" "s1 = s\<lparr>disk := fold (write_part (tok_id u)) parts (disk s)\<rparr>"
    by simp_all
  from a r Inr b have p: "post_upload e u req_files s1 = (Json 201 (Uploaded msg ups), s')"
    by (simp add: uploadFiles_def authenticated_Inr)
  then have "insert_files e (tok_id u) req_files [] s1 = Inr (ups, s')"
    by (auto simp: post_upload_def split: if_splits sum.splits)
  then show ?thesis using u by simp
qed

text \<open>
  Claim C4, amended. For an authenticated caller: the entries of a successful upload
  response carry, in \<open>filename\<close>, the stored names of the files, which are the names of
  the rows created and of the artifacts on the disk, and in \<open>originalName\<close> the display
  names; the list response carries for every
  row of the caller its \<open>filename\<close> column beside the display name; the download response
  is one of the two 404 errors or the bytes of the artifact with the display name of
  the row; the rename response is the 400 error, the 404 error, or the message with the
  new display name.
\<close>

theorem stored_name_exposure:
  "authenticateToken e hdr = Inr u \<longrightarrow>
     (\<forall>msg ups s'. uploadFiles e hdr parts s = (Json 201 (Uploaded msg ups), s') \<longrightarrow>
        map up_filename ups = map storage_filename parts \<and>
        map up_originalName ups = map originalname parts \<and>
        map filename (drop (length (files s)) (files s')) = map storage_filename parts \<and>
        (\<forall>p\<in>set parts. disk s' (filePath (tok_id u) (storage_filename p)) \<noteq> None)) \<and>
     (\<exists>ls. listFiles e hdr s = (Json 200 (Files ls), s) \<and>
        (\<forall>r\<in>set (files s). user_id r = tok_id u \<longrightarrow>
           (\<exists>l\<in>set ls. l_id l = f_id r \<and> l_filename l = filename r \<and>
              l_original_name l = original_name r))) \<and>
     (downloadFile e hdr fileId s = (Json 404 (Error ''File not found''), s) \<or>
      downloadFile e hdr fileId s = (Json 404 (Error ''File not found on server''), s) \<or>
      (\<exists>fr stored. getOwned fileId (tok_id u) s = Some fr \<and>
         disk s (filePath (tok_id u) (filename fr)) = Some stored \<and>
         downloadFile e hdr fileId s = (Download stored (original_name fr), s))) \<and>
     (renameFile e hdr fileId newName s = (Json 400 (Error ''New name is required''), s) \<or>
      renameFile e hdr fileId newName s = (Json 404 (Error ''File not found''), s) \<or>
      (\<exists>n. newName = Some n \<and>
         renameFile e hdr fileId newName s =
           (Json 200 (Renamed ''File renamed successfully'' n), update_name n fileId s)))"
proof (intro impI conjI allI)
  assume a: "authenticateToken e hdr = Inr u"
  {
    fix msg ups s'
    assume r: "uploadFiles e hdr parts s = (Json 201 (Uploaded msg ups), s')"
    let ?s1 = "s\<lparr>disk := fold (write_part (tok_id u)) parts (disk s)\<rparr>"
    from insert_files_Inr [OF uploadFiles_created [OF a r]] obtain rows where
      d: "disk s' = disk ?s1" and f: "files s' = files ?s1 @ rows"
      and ups: "ups = [] @ map (\<lambda>r. \<lparr>up_id = f_id r, up_filename = filename r,
                                 up_originalName = original_name r, up_size = f_size r,
                                 up_mimetype = mimetype r\<rparr>) rows"
      and rel: "list_all2 (\<lambda>r f. user_id r = tok_id u \<and> filename r = file_filename f \<and>
                     original_name r = file_originalname f \<and> f_size r = file_size f \<and>
                     mimetype r = file_mimetype f) rows (map to_file parts)"
      by blast
    have n: "map filename rows = map storage_filename parts"
      using list_all2_filenames [OF rel] by (simp add: to_file_def comp_def)
    have 1: "map up_filename ups = map storage_filename parts"
      using ups n by (simp add: comp_def)
    have "map original_name rows = map originalname parts"
      using list_all2_originalnames [OF rel] by (simp add: to_file_def comp_def)
    then have 4: "map up_originalName ups = map originalname parts"
      using ups by (simp add: comp_def)
    have 2: "map filename (drop (length (files s)) (files s')) = map storage_filename parts"
      using f n by simp
    have 3: "\<forall>p\<in>set parts. disk s' (filePath (tok_id u) (storage_filename p)) \<noteq> None"
      using d by (simp add: fold_write_present)
    show "map up_filename ups = map storage_filename parts" by (fact 1)
    show "map up_originalName ups = map originalname parts" by (fact 4)
    show "map filename (drop (length (files s)) (files s')) = map storage_filename parts" by (fact 2)
    show "\<forall>p\<in>set parts. disk s' (filePath (tok_id u) (storage_filename p)) \<noteq> None" by (fact 3)
  }
  {
    let ?rows = "sort_key (\<lambda>r. - int (upload_date r)) (filter (\<lambda>r. user_id r = tok_id u) (files s))"
    have l: "listFiles e hdr s = (Json 200 (Files (map select_columns ?rows)), s)"
      using a by (simp add: listFiles_def authenticated_Inr get_files_def)
    have "\<exists>l\<in>set (map select_columns ?rows). l_id l = f_id r \<and> l_filename l = filename r \<and>
              l_original_name l = original_name r"
      if "r \<in> set (files s)" "user_id r = tok_id u" for r
    proof -
      from that have "r \<in> set ?rows" by simp
      then have "select_columns r \<in> set (map select_columns ?rows)" by simp
      moreover have "l_id (select_columns r) = f_id r \<and> l_filename (select_columns r) = filename r \<and>
              l_original_name (select_columns r) = original_name r"
        by (simp add: select_columns_def)
      ultimately show ?thesis by blast
    qed
    with l show "\<exists>ls. listFiles e hdr s = (Json 200 (Files ls), s) \<and>
        (\<forall>r\<in>set (files s). user_id r = tok_id u \<longrightarrow>
           (\<exists>l\<in>set ls. l_id l = f_id r \<and> l_filename l = filename r \<and>
              l_original_name l = original_name r))"
      by blast
  }
  {
    show "downloadFile e hdr fileId s = (Json 404 (Error ''File not found''), s) \<or>
      downloadFile e hdr fileId s = (Json 404 (Error ''File not found on server''), s) \<or>
      (\<exists>fr stored. getOwned fileId (tok_id u) s = Some fr \<and>
         disk s (filePath (tok_id u) (filename fr)) = Some stored \<and>
         downloadFile e hdr fileId s = (Download stored (original_name fr), s))"
      using a by (simp add: downloadFile_def authenticated_Inr get_download_def split: option.splits)
  }
  {
    show "renameFile e hdr fileId newName s = (Json 400 (Error ''New name is required''), s) \<or>
      renameFile e hdr fileId newName s = (Json 404 (Error ''File not found''), s) \<or>
      (\<exists>n. newName = Some n \<and>
         renameFile e hdr fileId newName s =
           (Json 200 (Renamed ''File renamed successfully'' n), update_name n fileId s))"
      using a by (cases newName) (simp_all add: renameFile_def authenticated_Inr put_rename_def falsy_def split: option.splits)
  }
qed

text \<open>Alice uploads \<^verbatim>\<open>notes.txt\<close>; later she lists her files.\<close>

lemma alice_uploads_notes:
  "uploadFiles env0 (Some (token_of alice)) [notes_part] state0 =
     (Json 201 (Uploaded ''Files uploaded successfully''
        [\<lparr>up_id = 1, up_filename = ''5-7-notes.txt'', up_originalName = ''notes.txt'',
          up_size = 3, up_mimetype = ''text/plain''\<rparr>]),
      state1\<lparr>files := [notes_row\<lparr>upload_date := 100\<rparr>]\<rparr>)"
proof -
  have a: "authenticateToken env0 (Some (token_of alice)) = Inr alice"
    by (simp add: authenticateToken_def env0_def token_of_def)
  have t: "tok_id alice = 1" by (simp add: alice_def)
  have w: "upload_array env0 1 [notes_part] state0 =
     Inr ([to_file notes_part], state0\<lparr>disk := (\<lambda>p. None)((1, ''5-7-notes.txt'') \<mapsto> [1, 2, 3])\<rparr>)"
    by (simp add: upload_array_def env0_def fileSize_def write_part_def filePath_def notes_stored)
      (simp add: notes_part_def state0_def)
  have i: "insert_files env0 1 [to_file notes_part] []
       (state0\<lparr>disk := (\<lambda>p. None)((1, ''5-7-notes.txt'') \<mapsto> [1, 2, 3])\<rparr>) =
     Inr ([\<lparr>up_id = 1, up_filename = ''5-7-notes.txt'', up_originalName = ''notes.txt'',
          up_size = 3, up_mimetype = ''text/plain''\<rparr>], state1\<lparr>files := [notes_row\<lparr>upload_date := 100\<rparr>]\<rparr>)"
    by (simp add: stmt_run_def Let_def env0_def to_file_def notes_stored next_rowid_def)
      (simp add: state0_def state1_def notes_part_def notes_row_def)
  show ?thesis
    using a by (simp add: uploadFiles_def authenticated_Inr t w i post_upload_def del: insert_files.simps)
qed

lemma alice_lists_notes:
  "listFiles env0 (Some (token_of alice)) state1 =
     (Json 200 (Files [\<lparr>l_id = 1, l_filename = ''5-7-notes.txt'', l_original_name = ''notes.txt'',
                        l_size = 3, l_mimetype = ''text/plain'', l_upload_date = 50\<rparr>]), state1)"
  by (simp add: listFiles_def authenticated_def authenticateToken_def env0_def token_of_def
      get_files_def alice_def state1_def notes_row_def select_columns_def)

text \<open>
  Claim C4 as stated fails: the upload response and the list response both return the
  stored name \<^verbatim>\<open>5-7-notes.txt\<close>, the name of the artifact on the disk, in the field
  \<open>filename\<close>.
\<close>

theorem stored_name_returned_counterexample:
  "uploadFiles env0 (Some (token_of alice)) [notes_part] state0 =
     (Json 201 (Uploaded ''Files uploaded successfully''
        [\<lparr>up_id = 1, up_filename = ''5-7-notes.txt'', up_originalName = ''notes.txt'',
          up_size = 3, up_mimetype = ''text/plain''\<rparr>]),
      state1\<lparr>files := [notes_row\<lparr>upload_date := 100\<rparr>]\<rparr>) \<and>
   listFiles env0 (Some (token_of alice)) state1 =
     (Json 200 (Files [\<lparr>l_id = 1, l_filename = ''5-7-notes.txt'', l_original_name = ''notes.txt'',
                        l_size = 3, l_mimetype = ''text/plain'', l_upload_date = 50\<rparr>]), state1) \<and>
   map filename (files state1) = [''5-7-notes.txt''] \<and>
   disk state1 (filePath 1 ''5-7-notes.txt'') = Some [1, 2, 3]"
proof -
  have "map filename (files state1) = [''5-7-notes.txt'']"
    "disk state1 (filePath 1 ''5-7-notes.txt'') = Some [1, 2, 3]"
    by (simp_all add: state1_def notes_row_def filePath_def)
  with alice_uploads_notes alice_lists_notes show ?thesis by (intro conjI)
qed

text \<open>The stored name in Alice's upload response and in her list.\<close>

theorem stored_name_exposure_witness:
  "map up_filename
     [\<lparr>up_id = 1, up_filename = ''5-7-notes.txt'', up_originalName = ''notes.txt'',
       up_size = 3, up_mimetype = ''text/plain''\<rparr>] = map storage_filename [notes_part] \<and>
   (\<exists>ls. listFiles env0 (Some (token_of alice)) state1 = (Json 200 (Files ls), state1) \<and>
      list_ex (\<lambda>l. l_id l = 1 \<and> l_filename l = ''5-7-notes.txt'' \<and> l_original_name l = ''notes.txt'') ls)"
proof -
  have a: "authenticateToken env0 (Some (token_of alice)) = Inr alice"
    by (simp add: authenticateToken_def env0_def token_of_def)
  have 1: "map up_filename
     [\<lparr>up_id = 1, up_filename = ''5-7-notes.txt'', up_originalName = ''notes.txt'',
       up_size = 3, up_mimetype = ''text/plain''\<rparr>] = map storage_filename [notes_part]"
    using stored_name_exposure [where e = env0 and hdr = "Some (token_of alice)" and u = alice
        and parts = "[notes_part]" and s = state0] a alice_uploads_notes
    by blast
  have own: "notes_row \<in> set (files state1)" "user_id notes_row = tok_id alice"
    by (simp_all add: state1_def notes_row_def alice_def)
  from stored_name_exposure [where e = env0 and hdr = "Some (token_of alice)" and u = alice
        and s = state1] a
  obtain ls where ls: "listFiles env0 (Some (token_of alice)) state1 = (Json 200 (Files ls), state1)"
    "\<forall>r\<in>set (files state1). user_id r = tok_id alice \<longrightarrow>
           (\<exists>l\<in>set ls. l_id l = f_id r \<and> l_filename l = filename r \<and>
              l_original_name l = original_name r)"
    by blast
  from ls(2) own obtain l where "l \<in> set ls" "l_id l = f_id notes_row"
    "l_filename l = filename notes_row" "l_original_name l = original_name notes_row"
    by blast
  then have "list_ex (\<lambda>l. l_id l = 1 \<and> l_filename l = ''5-7-notes.txt'' \<and> l_original_name l = ''notes.txt'') ls"
    unfolding list_ex_iff by (intro bexI [of _ l]) (simp_all add: notes_row_def)
  with 1 ls(1) show ?thesis by blast
qed

end
